theory Spec2Isabelle
  imports Complex_Main "HOL-Library.Sublist"
begin

section \<open>Text\<close>

text \<open>
  Python text is modelled as \<^typ>\<open>string\<close>: a list of characters, each standing for one code
  point below 256. The character tables below are those of Python 3 on that range
  (\<^verbatim>\<open>str.isspace\<close>, \<^verbatim>\<open>str.lower\<close>, and the classes \<^verbatim>\<open>\s\<close>, \<^verbatim>\<open>\w\<close>, \<^verbatim>\<open>\d\<close> of the
  \<^verbatim>\<open>re\<close> module on \<^verbatim>\<open>str\<close> patterns).
\<close>

definition code :: "char \<Rightarrow> nat" where
  "code c = of_char c"

definition is_space :: "char \<Rightarrow> bool" where
  "is_space c = (let n = code c in (9 \<le> n \<and> n \<le> 13) \<or> (28 \<le> n \<and> n \<le> 32) \<or> n = 133 \<or> n = 160)"

definition is_digit :: "char \<Rightarrow> bool" where
  "is_digit c = (let n = code c in 48 \<le> n \<and> n \<le> 57)"

definition is_word :: "char \<Rightarrow> bool" where
  "is_word c = (let n = code c in
     (48 \<le> n \<and> n \<le> 57) \<or> (65 \<le> n \<and> n \<le> 90) \<or> n = 95 \<or> (97 \<le> n \<and> n \<le> 122) \<or>
     n = 170 \<or> n = 178 \<or> n = 179 \<or> n = 181 \<or> n = 185 \<or> n = 186 \<or> (188 \<le> n \<and> n \<le> 190) \<or>
     (192 \<le> n \<and> n \<le> 214) \<or> (216 \<le> n \<and> n \<le> 246) \<or> (248 \<le> n \<and> n \<le> 255))"

definition is_ascii_letter :: "char \<Rightarrow> bool" where
  "is_ascii_letter c = (let n = code c in (65 \<le> n \<and> n \<le> 90) \<or> (97 \<le> n \<and> n \<le> 122))"

definition lower_char :: "char \<Rightarrow> char" where
  "lower_char c = (let n = code c in
     if (65 \<le> n \<and> n \<le> 90) \<or> (192 \<le> n \<and> n \<le> 214) \<or> (216 \<le> n \<and> n \<le> 222)
     then char_of (n + 32) else c)"

definition newline :: char where "newline = CHR 0x0A"
definition dquote :: char where "dquote = CHR 0x22"
definition squote :: char where "squote = CHR 0x27"
definition backslash :: char where "backslash = CHR 0x5C"

text \<open>\<^verbatim>\<open>s.lower()\<close>, \<^verbatim>\<open>s.strip()\<close>, \<^verbatim>\<open>s.strip(chars)\<close>.\<close>

definition lower :: "string \<Rightarrow> string" where
  "lower s = map lower_char s"

definition strip :: "string \<Rightarrow> string" where
  "strip s = rev (dropWhile is_space (rev (dropWhile is_space s)))"

definition strip_chars :: "string \<Rightarrow> string \<Rightarrow> string" where
  "strip_chars chars s =
     rev (dropWhile (\<lambda>c. c \<in> set chars) (rev (dropWhile (\<lambda>c. c \<in> set chars) s)))"

text \<open>\<^verbatim>\<open>s.endswith(e)\<close>, \<^verbatim>\<open>s.startswith(p)\<close> and \<^verbatim>\<open>p in s\<close>.\<close>

definition endswith :: "string \<Rightarrow> string \<Rightarrow> bool" where
  "endswith s e = suffix e s"

definition startswith :: "string \<Rightarrow> string \<Rightarrow> bool" where
  "startswith s p = prefix p s"

definition contains :: "string \<Rightarrow> string \<Rightarrow> bool" where
  "contains p s = sublist p s"

text \<open>\<^verbatim>\<open>s.split(c, 1)\<close> for a text that contains \<open>c\<close>; \<^verbatim>\<open>s.split(c)\<close>; \<^verbatim>\<open>sep.join(parts)\<close>.\<close>

definition split_first :: "char \<Rightarrow> string \<Rightarrow> string \<times> string" where
  "split_first c s = (takeWhile (\<lambda>x. x \<noteq> c) s, drop 1 (dropWhile (\<lambda>x. x \<noteq> c) s))"

fun split_on :: "char \<Rightarrow> string \<Rightarrow> string list" where
  "split_on c [] = [[]]"
| "split_on c (x # xs) =
     (if x = c then [] # split_on c xs
      else (case split_on c xs of [] \<Rightarrow> [[x]] | h # t \<Rightarrow> (x # h) # t))"

fun join :: "string \<Rightarrow> string list \<Rightarrow> string" where
  "join sep [] = []"
| "join sep [p] = p"
| "join sep (p # q # ps) = p @ sep @ join sep (q # ps)"

text \<open>\<^verbatim>\<open>s.split()\<close>: the maximal runs of characters that are not white space.\<close>

fun split_ws :: "string \<Rightarrow> string \<Rightarrow> string list" where
  "split_ws cur [] = (if cur = [] then [] else [rev cur])"
| "split_ws cur (x # xs) =
     (if is_space x then (if cur = [] then split_ws [] xs else rev cur # split_ws [] xs)
      else split_ws (x # cur) xs)"

definition normalize_ws :: "string \<Rightarrow> string" where
  "normalize_ws s = join '' '' (split_ws [] s)"

text \<open>\<^verbatim>\<open>int(s)\<close> on a text of decimal digits, and \<^verbatim>\<open>str(n)\<close> for \<open>n \<ge> 0\<close>.\<close>

definition int_of_digits :: "string \<Rightarrow> nat" where
  "int_of_digits s = foldl (\<lambda>n c. 10 * n + (code c - 48)) 0 s"

fun str_of_nat :: "nat \<Rightarrow> string" where
  "str_of_nat n =
     (if n < 10 then [char_of (48 + n)] else str_of_nat (n div 10) @ [char_of (48 + n mod 10)])"

text \<open>Truth value of an optional text: \<^verbatim>\<open>None\<close> and the empty text are false.\<close>

definition truthy :: "string option \<Rightarrow> bool" where
  "truthy v = (case v of None \<Rightarrow> False | Some s \<Rightarrow> s \<noteq> [])"

section \<open>Data model\<close>

text \<open>
  The records of \<^verbatim>\<open>models.py\<close>, with the fields the extractor reads or writes. The fields
  \<^verbatim>\<open>default\<close> of a parameter and \<^verbatim>\<open>examples\<close> of a tool are never set by the extractor
  and keep their defaults; they are left out.
\<close>

record tool_parameter =
  param_name :: string
  param_type :: string
  param_description :: "string option"
  param_required :: bool

record mcp_tool =
  tool_name :: string
  tool_description :: "string option"
  tool_parameters :: "tool_parameter list"

record mcp_prompt =
  prompt_name :: string
  prompt_description :: "string option"
  prompt_arguments :: "tool_parameter list"

record mcp_resource =
  resource_name :: string
  resource_description :: "string option"
  resource_uri :: "string option"
  resource_mime_type :: "string option"

text \<open>
  Exceptions. \<open>ReError\<close> is \<^verbatim>\<open>re.error\<close>, \<open>TypeError\<close> the built-in, \<open>GithubError\<close> and
  \<open>RateLimitExceeded\<close> the two exceptions of the GitHub client the code names, and
  \<open>OtherError\<close> any other exception. \<open>Unmodelled\<close> is no Python exception: it marks a
  pattern text outside the fragment of the \<^verbatim>\<open>re\<close> syntax that \<open>re_compile\<close> below covers,
  where this theory says nothing about the program.
\<close>

datatype error = ReError | TypeError | GithubError | RateLimitExceeded | OtherError | Unmodelled

text \<open>
  The lines of the extraction log. Each constructor stands for one f-string of the code
  and carries the values formatted into it.
\<close>

datatype log_line =
    LogExtracted string nat nat nat
  | LogErrorParsing string error
  | LogConfidence real
  | LogReadmeFallback nat

text \<open>A URL is given by the two components \<^verbatim>\<open>urlparse\<close> returns that the code reads.\<close>

record url =
  netloc :: string
  url_path :: string

datatype server_type = Reference | ThirdParty

record mcp_server =
  server_name :: string
  github_url :: url
  server_kind :: server_type
  tools :: "mcp_tool list"
  prompts :: "mcp_prompt list"
  resources :: "mcp_resource list"
  error_message :: "string option"
  extraction_log :: "log_line list option"

section \<open>Regular expressions\<close>

text \<open>
  The patterns of the extractor are run by Python's \<^verbatim>\<open>re\<close> module, a backtracking matcher.
  A pattern is a term of \<open>rx\<close>; \<open>m r s c k\<close> matches \<open>r\<close> at the front of \<open>s\<close> with the groups
  \<open>c\<close> captured so far and hands the rest of the text and the groups to the continuation
  \<open>k\<close>; the first way of matching that the continuation accepts wins, alternatives being
  tried in the order of the backtracking matcher (left alternative first, a greedy star
  longest first, a lazy star shortest first). An iteration of a starred pattern that
  consumes nothing is not taken; every starred pattern below consumes at least one
  character, and \<open>re_compile\<close> refuses the others.
\<close>

type_synonym caps = "nat \<rightharpoonup> string"
type_synonym outcome = "(string \<times> caps) option"
type_synonym kont = "string \<Rightarrow> caps \<Rightarrow> outcome"

datatype rx =
    Cls "char \<Rightarrow> bool"
  | Eps
  | Seq rx rx
  | Alt rx rx
  | Star rx
  | LazyStar rx
  | Grp nat rx
  | Ahead rx
  | NotAhead rx
  | Eos

definition accept :: kont where
  "accept s c = Some (s, c)"

fun m :: "rx \<Rightarrow> string \<Rightarrow> caps \<Rightarrow> kont \<Rightarrow> outcome" where
  "m (Cls f) s c k = (case s of [] \<Rightarrow> None | x # xs \<Rightarrow> if f x then k xs c else None)"
| "m Eps s c k = k s c"
| "m (Seq a b) s c k = m a s c (\<lambda>s' c'. m b s' c' k)"
| "m (Alt a b) s c k = (case m a s c k of Some r \<Rightarrow> Some r | None \<Rightarrow> m b s c k)"
| "m (Star a) s c k =
     (case m a s c (\<lambda>s' c'. if length s' < length s then m (Star a) s' c' k else None) of
        Some r \<Rightarrow> Some r
      | None \<Rightarrow> k s c)"
| "m (LazyStar a) s c k =
     (case k s c of
        Some r \<Rightarrow> Some r
      | None \<Rightarrow> m a s c (\<lambda>s' c'. if length s' < length s then m (LazyStar a) s' c' k else None))"
| "m (Grp i a) s c k = m a s c (\<lambda>s' c'. k s' (c'(i \<mapsto> take (length s - length s') s)))"
| "m (Ahead a) s c k = (case m a s c accept of Some (_, c') \<Rightarrow> k s c' | None \<Rightarrow> None)"
| "m (NotAhead a) s c k = (case m a s c accept of Some _ \<Rightarrow> None | None \<Rightarrow> k s c)"
| "m Eos s c k = (if s = [] \<or> s = [newline] then k s c else None)"

text \<open>
  The continuations that arise are those of a stack of pending patterns; \<open>run\<close> names them,
  so that a match on a given text can be computed step by step.
\<close>

datatype frame = Rx rx | Loop rx string | LazyLoop rx string | Close nat string

fun run :: "frame list \<Rightarrow> string \<Rightarrow> caps \<Rightarrow> outcome" where
  "run [] s c = accept s c"
| "run (Rx r # fs) s c = m r s c (run fs)"
| "run (Loop a s0 # fs) s c = (if length s < length s0 then m (Star a) s c (run fs) else None)"
| "run (LazyLoop a s0 # fs) s c =
     (if length s < length s0 then m (LazyStar a) s c (run fs) else None)"
| "run (Close i s0 # fs) s c = run fs s (c(i \<mapsto> take (length s0 - length s) s0))"

text \<open>The notation of patterns: \<^verbatim>\<open>x+\<close>, \<^verbatim>\<open>x?\<close>, literals, and the character classes.\<close>

definition chr :: "char \<Rightarrow> rx" where "chr x = Cls (\<lambda>c. c = x)"
definition ichr :: "char \<Rightarrow> rx" where "ichr x = Cls (\<lambda>c. lower_char c = lower_char x)"
definition seq :: "rx list \<Rightarrow> rx" where "seq rs = foldr Seq rs Eps"
definition lit :: "string \<Rightarrow> rx" where "lit s = seq (map chr s)"
definition ilit :: "string \<Rightarrow> rx" where "ilit s = seq (map ichr s)"
definition plus :: "rx \<Rightarrow> rx" where "plus r = Seq r (Star r)"
definition lazy_plus :: "rx \<Rightarrow> rx" where "lazy_plus r = Seq r (LazyStar r)"
definition opt :: "rx \<Rightarrow> rx" where "opt r = Alt r Eps"
definition lazy_opt :: "rx \<Rightarrow> rx" where "lazy_opt r = Alt Eps r"
definition any_char :: rx where "any_char = Cls (\<lambda>c. True)"
definition dot :: rx where "dot = Cls (\<lambda>c. c \<noteq> newline)"
definition space :: rx where "space = Cls is_space"
definition word :: rx where "word = Cls is_word"
definition digit :: rx where "digit = Cls is_digit"
definition one_of :: "string \<Rightarrow> rx" where "one_of cs = Cls (\<lambda>c. c \<in> set cs)"
definition none_of :: "string \<Rightarrow> rx" where "none_of cs = Cls (\<lambda>c. c \<notin> set cs)"
definition quote :: rx where "quote = one_of [dquote, squote]"
definition no_quote :: rx where "no_quote = none_of [dquote, squote]"

text \<open>
  A match object: where the match starts, the text matched (\<^verbatim>\<open>group(0)\<close>) and the groups.
  \<^verbatim>\<open>re.search\<close> tries the start positions from left to right.
\<close>

record rmatch =
  m_start :: nat
  m_text :: string
  m_groups :: caps

fun search_from :: "rx \<Rightarrow> string \<Rightarrow> nat \<Rightarrow> rmatch option" where
  "search_from r s i =
     (case m r s Map.empty accept of
        Some (s', c) \<Rightarrow> Some \<lparr>m_start = i, m_text = take (length s - length s') s, m_groups = c\<rparr>
      | None \<Rightarrow> (case s of [] \<Rightarrow> None | _ # t \<Rightarrow> search_from r t (Suc i)))"

definition re_search :: "rx \<Rightarrow> string \<Rightarrow> rmatch option" where
  "re_search r s = search_from r s 0"

definition m_end :: "rmatch \<Rightarrow> nat" where
  "m_end mo = m_start mo + length (m_text mo)"

definition group :: "rmatch \<Rightarrow> nat \<Rightarrow> string option" where
  "group mo i = m_groups mo i"

text \<open>A group that took no part in the match is the empty text in the results of \<^verbatim>\<open>findall\<close>.\<close>

definition group_str :: "rmatch \<Rightarrow> nat \<Rightarrow> string" where
  "group_str mo i = (case m_groups mo i of None \<Rightarrow> [] | Some w \<Rightarrow> w)"

text \<open>
  The successive matches of \<^verbatim>\<open>findall\<close> and \<^verbatim>\<open>sub\<close>: the search resumes where the last match
  ended, one character further after an empty match. (Python also looks for a non-empty
  match at the place of an empty one; no pattern used with \<^verbatim>\<open>findall\<close> or \<^verbatim>\<open>sub\<close> here
  matches the empty text.)
\<close>

definition resume :: "rmatch \<Rightarrow> string \<Rightarrow> string" where
  "resume mo s = (if m_text mo = [] then drop (Suc (m_start mo)) s else drop (m_end mo) s)"

function re_finditer :: "rx \<Rightarrow> string \<Rightarrow> rmatch list" where
  "re_finditer r s =
     (case re_search r s of
        None \<Rightarrow> []
      | Some mo \<Rightarrow> mo # (if s = [] then [] else re_finditer r (resume mo s)))"
  by pat_completeness auto
termination
proof (relation "measure (\<lambda>(r, s). length s)")
  show "wf (measure (\<lambda>(r, s). length s))" by simp
next
  fix r :: rx and s :: string and mo :: rmatch
  assume "s \<noteq> []"
  then have "length (resume mo s) < length s"
    by (cases "m_text mo") (auto simp: resume_def m_end_def)
  then show "((r, resume mo s), (r, s)) \<in> measure (\<lambda>(r, s). length s)"
    by simp
qed

declare re_finditer.simps [simp del]

definition findall1 :: "rx \<Rightarrow> string \<Rightarrow> string list" where
  "findall1 r s = map (\<lambda>mo. group_str mo 1) (re_finditer r s)"

definition findall2 :: "rx \<Rightarrow> string \<Rightarrow> (string \<times> string) list" where
  "findall2 r s = map (\<lambda>mo. (group_str mo 1, group_str mo 2)) (re_finditer r s)"

definition findall3 :: "rx \<Rightarrow> string \<Rightarrow> (string \<times> string \<times> string) list" where
  "findall3 r s = map (\<lambda>mo. (group_str mo 1, group_str mo 2, group_str mo 3)) (re_finditer r s)"

function re_sub :: "rx \<Rightarrow> string \<Rightarrow> string \<Rightarrow> string" where
  "re_sub r repl s =
     (case re_search r s of
        None \<Rightarrow> s
      | Some mo \<Rightarrow>
          take (m_start mo) s @ repl @
          (if s = [] then []
           else (if m_text mo = [] then take 1 (drop (m_start mo) s) else []) @
                re_sub r repl (resume mo s)))"
  by pat_completeness auto
termination
proof (relation "measure (\<lambda>(r, repl, s). length s)")
  show "wf (measure (\<lambda>(r, repl, s). length s))" by simp
next
  fix r :: rx and repl s :: string and mo :: rmatch
  assume "s \<noteq> []"
  then have "length (resume mo s) < length s"
    by (cases "m_text mo") (auto simp: resume_def m_end_def)
  then show "((r, repl, resume mo s), (r, repl, s)) \<in> measure (\<lambda>(r, repl, s). length s)"
    by simp
qed

declare re_sub.simps [simp del]

section \<open>Pattern texts\<close>

text \<open>
  The name resolver builds two of its patterns from text of the file it reads, so the
  syntax of patterns is part of what it does. \<open>re_compile\<close> reads a pattern text as
  \<^verbatim>\<open>re.compile\<close> does, for this fragment: literal characters, \<^verbatim>\<open>.\<close>, \<^verbatim>\<open>$\<close>, the escapes
  \<^verbatim>\<open>\d \D \s \S \w \W \n \t \r \f \v \a\<close> and escaped punctuation, character sets with
  ranges, groups \<^verbatim>\<open>(...)\<close>, \<^verbatim>\<open>(?:...)\<close>, \<^verbatim>\<open>(?=...)\<close>, \<^verbatim>\<open>(?!...)\<close>, alternation, and the
  repetitions \<^verbatim>\<open>* + ?\<close> with their lazy forms. Its result is \<open>Inl ReError\<close> where
  \<^verbatim>\<open>re.compile\<close> raises \<^verbatim>\<open>re.error\<close>, and \<open>Inl Unmodelled\<close> for a text outside the fragment.
  The first argument is the flag \<^verbatim>\<open>re.DOTALL\<close>.
\<close>

datatype quant = QStar | QPlus | QOpt

datatype group_kind = Capture | NonCapture | Lookahead | NegLookahead

datatype token =
    TAtom rx
  | TAnchor rx
  | TQuant quant bool
  | TOpen group_kind
  | TClose
  | TBar
  | TBad error

datatype escaped = ELit char | ECat "char \<Rightarrow> bool" | EBad error

text \<open>An escape \<^verbatim>\<open>\x\<close>; inside a character set \<^verbatim>\<open>\b\<close> is the backspace character.\<close>

definition escape :: "bool \<Rightarrow> char \<Rightarrow> escaped" where
  "escape in_set x =
     (if x = CHR ''d'' then ECat is_digit
      else if x = CHR ''D'' then ECat (\<lambda>c. \<not> is_digit c)
      else if x = CHR ''s'' then ECat is_space
      else if x = CHR ''S'' then ECat (\<lambda>c. \<not> is_space c)
      else if x = CHR ''w'' then ECat is_word
      else if x = CHR ''W'' then ECat (\<lambda>c. \<not> is_word c)
      else if x = CHR ''n'' then ELit (CHR 0x0A)
      else if x = CHR ''t'' then ELit (CHR 0x09)
      else if x = CHR ''r'' then ELit (CHR 0x0D)
      else if x = CHR ''f'' then ELit (CHR 0x0C)
      else if x = CHR ''v'' then ELit (CHR 0x0B)
      else if x = CHR ''a'' then ELit (CHR 0x07)
      else if x = CHR ''b'' then (if in_set then ELit (CHR 0x08) else EBad Unmodelled)
      else if x \<in> set ''ABZxuUN0123456789'' then EBad Unmodelled
      else if is_ascii_letter x then EBad ReError
      else ELit x)"

definition in_range :: "char \<Rightarrow> char \<Rightarrow> char \<Rightarrow> bool" where
  "in_range lo hi c = (code lo \<le> code c \<and> code c \<le> code hi)"

definition set_atom :: "bool \<Rightarrow> (char \<Rightarrow> bool) \<Rightarrow> token" where
  "set_atom negate p = TAtom (Cls (if negate then (\<lambda>c. \<not> p c) else p))"

fun lex :: "bool \<Rightarrow> string \<Rightarrow> token list"
  and lex_set :: "bool \<Rightarrow> bool \<Rightarrow> bool \<Rightarrow> (char \<Rightarrow> bool) \<Rightarrow> string \<Rightarrow> token list"
  and lex_item :: "bool \<Rightarrow> bool \<Rightarrow> (char \<Rightarrow> bool) \<Rightarrow> escaped \<Rightarrow> string \<Rightarrow> token list"
where
  "lex dotall [] = []"
| "lex dotall (x # rest) =
     (if x = backslash then
        (case rest of
           [] \<Rightarrow> [TBad ReError]
         | y # rest' \<Rightarrow>
             (case escape False y of
                ELit c \<Rightarrow> TAtom (chr c) # lex dotall rest'
              | ECat p \<Rightarrow> TAtom (Cls p) # lex dotall rest'
              | EBad e \<Rightarrow> [TBad e]))
      else if x = CHR ''['' then
        (case rest of
           [] \<Rightarrow> [TBad ReError]
         | y # rest' \<Rightarrow>
             if y = CHR ''^'' then lex_set dotall True True (\<lambda>c. False) rest'
             else lex_set dotall False True (\<lambda>c. False) rest)
      else if x = CHR ''('' then
        (case rest of
           [] \<Rightarrow> TOpen Capture # lex dotall rest
         | y # rest' \<Rightarrow>
             if y = CHR ''?'' then
               (case rest' of
                  [] \<Rightarrow> [TBad ReError]
                | z # rest'' \<Rightarrow>
                    if z = CHR '':'' then TOpen NonCapture # lex dotall rest''
                    else if z = CHR ''='' then TOpen Lookahead # lex dotall rest''
                    else if z = CHR ''!'' then TOpen NegLookahead # lex dotall rest''
                    else [TBad Unmodelled])
             else TOpen Capture # lex dotall rest)
      else if x = CHR '')'' then TClose # lex dotall rest
      else if x = CHR ''|'' then TBar # lex dotall rest
      else if x = CHR ''*'' \<or> x = CHR ''+'' \<or> x = CHR ''?'' then
        (let q = (if x = CHR ''*'' then QStar else if x = CHR ''+'' then QPlus else QOpt) in
         case rest of
           [] \<Rightarrow> [TQuant q False]
         | y # rest' \<Rightarrow>
             if y = CHR ''?'' then TQuant q True # lex dotall rest'
             else if y = CHR ''+'' then [TBad Unmodelled]
             else TQuant q False # lex dotall rest)
      else if x = CHR ''{'' then
        (case rest of
           [] \<Rightarrow> [TAtom (chr x)]
         | y # rest' \<Rightarrow>
             if is_digit y \<or> y = CHR '','' then [TBad Unmodelled]
             else TAtom (chr x) # lex dotall rest)
      else if x = CHR ''.'' then TAtom (if dotall then any_char else dot) # lex dotall rest
      else if x = CHR ''^'' then [TBad Unmodelled]
      else if x = CHR ''$'' then TAnchor Eos # lex dotall rest
      else TAtom (chr x) # lex dotall rest)"
| "lex_set dotall negate first p [] = [TBad ReError]"
| "lex_set dotall negate first p (x # rest) =
     (if x = CHR '']'' \<and> \<not> first then set_atom negate p # lex dotall rest
      else if x = backslash then
        (case rest of
           [] \<Rightarrow> [TBad ReError]
         | y # rest' \<Rightarrow> lex_item dotall negate p (escape True y) rest')
      else lex_item dotall negate p (ELit x) rest)"
| "lex_item dotall negate p item [] = [TBad ReError]"
| "lex_item dotall negate p item (x # rest) =
     (case item of
        EBad e \<Rightarrow> [TBad e]
      | ECat q \<Rightarrow>
          if x = CHR ''-'' then
            (case rest of
               [] \<Rightarrow> [TBad ReError]
             | y # rest' \<Rightarrow>
                 if y = CHR '']'' then set_atom negate (\<lambda>c. p c \<or> q c \<or> c = CHR ''-'') # lex dotall rest'
                 else [TBad ReError])
          else lex_set dotall negate False (\<lambda>c. p c \<or> q c) (x # rest)
      | ELit lo \<Rightarrow>
          if x = CHR ''-'' then
            (case rest of
               [] \<Rightarrow> [TBad ReError]
             | y # rest' \<Rightarrow>
                 if y = CHR '']'' then set_atom negate (\<lambda>c. p c \<or> c = lo \<or> c = CHR ''-'') # lex dotall rest'
                 else if y = backslash then
                   (case rest' of
                      [] \<Rightarrow> [TBad ReError]
                    | z # rest'' \<Rightarrow>
                        (case escape True z of
                           ELit hi \<Rightarrow>
                             if code hi < code lo then [TBad ReError]
                             else lex_set dotall negate False (\<lambda>c. p c \<or> in_range lo hi c) rest''
                         | ECat q \<Rightarrow> [TBad ReError]
                         | EBad e \<Rightarrow> [TBad e]))
                 else if code y < code lo then [TBad ReError]
                 else lex_set dotall negate False (\<lambda>c. p c \<or> in_range lo y c) rest')
          else lex_set dotall negate False (\<lambda>c. p c \<or> c = lo) (x # rest))"

text \<open>Whether a pattern can match without consuming a character.\<close>

fun nullable :: "rx \<Rightarrow> bool" where
  "nullable (Cls f) = False"
| "nullable Eps = True"
| "nullable (Seq a b) = (nullable a \<and> nullable b)"
| "nullable (Alt a b) = (nullable a \<or> nullable b)"
| "nullable (Star a) = True"
| "nullable (LazyStar a) = True"
| "nullable (Grp i a) = nullable a"
| "nullable (Ahead a) = True"
| "nullable (NotAhead a) = True"
| "nullable Eos = True"

datatype item_kind = Plain | Anchor | Repeated

definition repeat :: "quant \<Rightarrow> bool \<Rightarrow> rx \<Rightarrow> rx" where
  "repeat q lazy r =
     (case q of
        QStar \<Rightarrow> if lazy then LazyStar r else Star r
      | QPlus \<Rightarrow> if lazy then lazy_plus r else plus r
      | QOpt \<Rightarrow> if lazy then lazy_opt r else opt r)"

definition seq_of :: "(rx \<times> item_kind) list \<Rightarrow> rx" where
  "seq_of items = seq (rev (map fst items))"

fun alt_of :: "rx list \<Rightarrow> rx" where
  "alt_of [] = Eps"
| "alt_of [r] = r"
| "alt_of (r # q # rs) = Alt r (alt_of (q # rs))"

definition wrap :: "group_kind \<Rightarrow> nat \<Rightarrow> rx \<Rightarrow> rx" where
  "wrap k i r =
     (case k of Capture \<Rightarrow> Grp i r | NonCapture \<Rightarrow> r | Lookahead \<Rightarrow> Ahead r
      | NegLookahead \<Rightarrow> NotAhead r)"

text \<open>
  The parser keeps the items of the sequence being read (last first), the alternatives of
  the group being read that are complete (last first), the enclosing groups, and the
  number of capturing groups opened so far.
\<close>

type_synonym open_group = "group_kind \<times> nat \<times> (rx \<times> item_kind) list \<times> rx list"

fun parse ::
  "token list \<Rightarrow> (rx \<times> item_kind) list \<Rightarrow> rx list \<Rightarrow> open_group list \<Rightarrow> nat \<Rightarrow> error + rx"
where
  "parse [] items alts stack n =
     (if stack \<noteq> [] then Inl ReError else Inr (alt_of (rev (seq_of items # alts))))"
| "parse (t # ts) items alts stack n =
     (case t of
        TBad e \<Rightarrow> Inl e
      | TAtom r \<Rightarrow> parse ts ((r, Plain) # items) alts stack n
      | TAnchor r \<Rightarrow> parse ts ((r, Anchor) # items) alts stack n
      | TQuant q lazy \<Rightarrow>
          (case items of
             [] \<Rightarrow> Inl ReError
           | (r, k) # items' \<Rightarrow>
               if k \<noteq> Plain then Inl ReError
               else if q \<noteq> QOpt \<and> nullable r then Inl Unmodelled
               else parse ts ((repeat q lazy r, Repeated) # items') alts stack n)
      | TOpen k \<Rightarrow>
          if k = Capture then parse ts [] [] ((k, Suc n, items, alts) # stack) (Suc n)
          else parse ts [] [] ((k, 0, items, alts) # stack) n
      | TBar \<Rightarrow> parse ts [] (seq_of items # alts) stack n
      | TClose \<Rightarrow>
          (case stack of
             [] \<Rightarrow> Inl ReError
           | (k, i, items', alts') # stack' \<Rightarrow>
               parse ts ((wrap k i (alt_of (rev (seq_of items # alts))), Plain) # items') alts'
                 stack' n))"

definition re_compile :: "bool \<Rightarrow> string \<Rightarrow> error + rx" where
  "re_compile dotall pattern = parse (lex dotall pattern) [] [] [] 0"

section \<open>Documentation text\<close>

text \<open>
  The patterns are written as terms of \<open>rx\<close>; each definition quotes the pattern text of the
  source. A tool without parameters:
\<close>

definition mk_tool :: "string \<Rightarrow> string option \<Rightarrow> tool_parameter list \<Rightarrow> mcp_tool" where
  "mk_tool n d ps = \<lparr>tool_name = n, tool_description = d, tool_parameters = ps\<rparr>"

text \<open>\<^verbatim>\<open>description.strip() if description else None\<close>\<close>

definition stripped_or_none :: "string \<Rightarrow> string option" where
  "stripped_or_none description = (if description \<noteq> [] then Some (strip description) else None)"

text \<open>\<^verbatim>\<open>##?\s*Tools?\s*\n(.*?)(?=\n##|$)\<close> with \<^verbatim>\<open>re.DOTALL | re.IGNORECASE\<close>\<close>

definition tool_sections_pattern :: rx where
  "tool_sections_pattern =
     seq [chr CHR ''#'', opt (chr CHR ''#''), Star space, ilit ''Tool'', opt (ichr CHR ''s''),
          Star space, chr newline, Grp 1 (LazyStar any_char),
          Ahead (Alt (seq [chr newline, lit ''##'']) Eos)]"

text \<open>\<^verbatim>\<open>[\w_]+\<close> and \<^verbatim>\<open>[:\s-]+\<close>\<close>

definition name_chars :: rx where
  "name_chars = Cls (\<lambda>c. is_word c \<or> c = CHR ''_'')"

definition sep_chars :: rx where
  "sep_chars = Cls (\<lambda>c. c = CHR '':'' \<or> is_space c \<or> c = CHR ''-'')"

text \<open>\<^verbatim>\<open>[-*+]\s*`?([\w_]+)`?[:\s-]+([^\n]+)\<close>\<close>

definition bullet_pattern :: rx where
  "bullet_pattern =
     seq [one_of ''-*+'', Star space, opt (chr CHR ''`''), Grp 1 (plus name_chars),
          opt (chr CHR ''`''), plus sep_chars, Grp 2 (plus dot)]"

text \<open>\<^verbatim>\<open>\d+\.\s*`?([\w_]+)`?[:\s-]+([^\n]+)\<close>\<close>

definition numbered_pattern :: rx where
  "numbered_pattern =
     seq [plus digit, chr CHR ''.'', Star space, opt (chr CHR ''`''), Grp 1 (plus name_chars),
          opt (chr CHR ''`''), plus sep_chars, Grp 2 (plus dot)]"

text \<open>\<^verbatim>\<open>`([\w_]+)`[:\s-]+([^\n]+)\<close>\<close>

definition backtick_pattern :: rx where
  "backtick_pattern =
     seq [chr CHR ''`'', Grp 1 (plus name_chars), chr CHR ''`'', plus sep_chars, Grp 2 (plus dot)]"

definition tool_patterns :: "rx list" where
  "tool_patterns = [bullet_pattern, numbered_pattern, backtick_pattern]"

definition generic_names :: "string list" where
  "generic_names = [''tool'', ''tools'', ''function'', ''method'']"

definition tools_of_matches :: "(string \<times> string) list \<Rightarrow> mcp_tool list" where
  "tools_of_matches matches =
     map (\<lambda>(name, description). mk_tool name (Some (strip description)) [])
       (filter (\<lambda>(name, description). length name > 2 \<and> lower name \<notin> set generic_names)
          matches)"

definition extract_tools_from_markdown :: "string \<Rightarrow> mcp_tool list" where
  "extract_tools_from_markdown content =
     concat (map (\<lambda>section.
        concat (map (\<lambda>pattern. tools_of_matches (findall2 pattern section)) tool_patterns))
       (findall1 tool_sections_pattern content))"

section \<open>Python, Go, Rust, C\# and Java sources\<close>

text \<open>
  The tail shared by the three decorator patterns of Python:
  \<^verbatim>\<open>\s*(?:async\s+)?def\s+(\w+)\s*\([^)]*\):\s*(?:\n\s*"""([^"]*?)""")?\<close>
\<close>

definition def_tail :: "rx list" where
  "def_tail =
     [Star space, opt (seq [lit ''async'', plus space]), lit ''def'', plus space,
      Grp 1 (plus word), Star space, chr CHR ''('', Star (none_of '')''), lit ''):'', Star space,
      opt (seq [chr newline, Star space, lit [dquote, dquote, dquote],
                Grp 2 (LazyStar (none_of [dquote])), lit [dquote, dquote, dquote]])]"

text \<open>\<^verbatim>\<open>(?:\([^)]*\))?\<close>\<close>

definition opt_args :: rx where
  "opt_args = opt (seq [chr CHR ''('', Star (none_of '')''), chr CHR '')''])"

text \<open>\<^verbatim>\<open>@mcp\.tool\(\)\<close>, \<^verbatim>\<open>@server\.tool\s*(?:\([^)]*\))?\<close> and \<^verbatim>\<open>@tool\s*(?:\([^)]*\))?\<close>, each followed by the tail.\<close>

definition fastmcp_pattern :: rx where
  "fastmcp_pattern = seq (lit ''@mcp.tool()'' # def_tail)"

definition server_tool_pattern :: rx where
  "server_tool_pattern = seq ([lit ''@server.tool'', Star space, opt_args] @ def_tail)"

definition tool_pattern :: rx where
  "tool_pattern = seq ([lit ''@tool'', Star space, opt_args] @ def_tail)"

text \<open>\<^verbatim>\<open>server\.add_tool\s*\(\s*["\']([^"\']+)["\']\<close>\<close>

definition add_tool_pattern :: rx where
  "add_tool_pattern =
     seq [lit ''server.add_tool'', Star space, chr CHR ''('', Star space, quote,
          Grp 1 (plus no_quote), quote]"

definition described_tools :: "(string \<times> string) list \<Rightarrow> mcp_tool list" where
  "described_tools matches =
     map (\<lambda>(name, description). mk_tool name (stripped_or_none description) []) matches"

definition bare_tools :: "string list \<Rightarrow> mcp_tool list" where
  "bare_tools names = map (\<lambda>name. mk_tool name None []) names"

type_synonym declarations = "mcp_tool list \<times> mcp_prompt list \<times> mcp_resource list"

definition parse_python_content :: "string \<Rightarrow> declarations" where
  "parse_python_content content =
     (described_tools (findall2 fastmcp_pattern content) @
      described_tools (findall2 server_tool_pattern content) @
      described_tools (findall2 tool_pattern content) @
      bare_tools (findall1 add_tool_pattern content),
      [], [])"

text \<open>\<^verbatim>\<open>const\s+(\w+Tool)\s*=\s*["\']([^"\']+)["\']\<close>\<close>

definition go_const_pattern :: rx where
  "go_const_pattern =
     seq [lit ''const'', plus space, Grp 1 (seq [plus word, lit ''Tool'']), Star space,
          chr CHR ''='', Star space, quote, Grp 2 (plus no_quote), quote]"

text \<open>
  \<^verbatim>\<open>s\.AddTool\s*\(\s*\w*\.?\<close> followed by \<^verbatim>\<open>re.escape(const_name)\<close>, which matches the
  text of \<open>const_name\<close> literally.
\<close>

definition go_add_tool_pattern :: "string \<Rightarrow> rx" where
  "go_add_tool_pattern const_name =
     seq [lit ''s.AddTool'', Star space, chr CHR ''('', Star space, Star word, opt (chr CHR ''.''),
          lit const_name]"

text \<open>\<^verbatim>\<open>s\.AddTool\s*\(\s*["\']([^"\']+)["\']\<close>\<close>

definition go_direct_add_pattern :: rx where
  "go_direct_add_pattern =
     seq [lit ''s.AddTool'', Star space, chr CHR ''('', Star space, quote,
          Grp 1 (plus no_quote), quote]"

text \<open>\<^verbatim>\<open>type\s+\w*Tool\w*\s+struct\s*{[^}]*Name\s*:\s*["\']([^"\']+)["\'][^}]*}\<close>\<close>

definition go_struct_pattern :: rx where
  "go_struct_pattern =
     seq [lit ''type'', plus space, Star word, lit ''Tool'', Star word, plus space, lit ''struct'',
          Star space, chr CHR ''{'', Star (none_of ''}''), lit ''Name'', Star space, chr CHR '':'',
          Star space, quote, Grp 1 (plus no_quote), quote, Star (none_of ''}''), chr CHR ''}'']"

definition parse_go_content :: "string \<Rightarrow> declarations" where
  "parse_go_content content =
     (bare_tools (map snd (filter (\<lambda>(const_name, tname).
          re_search (go_add_tool_pattern const_name) content \<noteq> None)
        (findall2 go_const_pattern content))) @
      bare_tools (findall1 go_direct_add_pattern content) @
      bare_tools (findall1 go_struct_pattern content),
      [], [])"

text \<open>\<^verbatim>\<open>#\[derive\([^)]*\)]\s*(?:pub\s+)?struct\s+(\w+)\s*{[^}]*name:\s*String[^}]*}\<close>\<close>

definition rust_struct_pattern :: rx where
  "rust_struct_pattern =
     seq [lit ''#[derive('', Star (none_of '')''), lit '')]'', Star space,
          opt (seq [lit ''pub'', plus space]), lit ''struct'', plus space, Grp 1 (plus word),
          Star space, chr CHR ''{'', Star (none_of ''}''), lit ''name:'', Star space, lit ''String'',
          Star (none_of ''}''), chr CHR ''}'']"

text \<open>
  \<^verbatim>\<open>impl.*{struct_name}.*{{.*?fn\s+(\w+)\<close> with \<^verbatim>\<open>re.DOTALL\<close>; \<open>struct_name\<close> was matched by
  \<^verbatim>\<open>\w+\<close>, so its characters stand for themselves in the pattern.
\<close>

definition rust_impl_pattern :: "string \<Rightarrow> rx" where
  "rust_impl_pattern struct_name =
     seq [lit ''impl'', Star any_char, lit struct_name, Star any_char, chr CHR ''{'',
          LazyStar any_char, lit ''fn'', plus space, Grp 1 (plus word)]"

text \<open>\<^verbatim>\<open>#\[mcp::(tool|prompt)\]\s*(?:pub\s+)?(?:async\s+)?fn\s+(\w+)\<close>\<close>

definition rust_fn_pattern :: rx where
  "rust_fn_pattern =
     seq [lit ''#[mcp::'', Grp 1 (Alt (lit ''tool'') (lit ''prompt'')), chr CHR '']'', Star space,
          opt (seq [lit ''pub'', plus space]), opt (seq [lit ''async'', plus space]), lit ''fn'',
          plus space, Grp 2 (plus word)]"

definition mk_prompt :: "string \<Rightarrow> string option \<Rightarrow> tool_parameter list \<Rightarrow> mcp_prompt" where
  "mk_prompt n d as = \<lparr>prompt_name = n, prompt_description = d, prompt_arguments = as\<rparr>"

definition parse_rust_content :: "string \<Rightarrow> declarations" where
  "parse_rust_content content =
     (let fn_matches = findall2 rust_fn_pattern content in
      (concat (map (\<lambda>struct_name.
           map (\<lambda>method_name.
                  mk_tool method_name (Some (''Tool from '' @ struct_name @ '' struct'')) [])
             (findall1 (rust_impl_pattern struct_name) content))
         (findall1 rust_struct_pattern content)) @
       map (\<lambda>(attr_type, fn_name). mk_tool fn_name None [])
         (filter (\<lambda>(attr_type, fn_name). attr_type = ''tool'') fn_matches),
       map (\<lambda>(attr_type, fn_name). mk_prompt fn_name None [])
         (filter (\<lambda>(attr_type, fn_name). attr_type \<noteq> ''tool'' \<and> attr_type = ''prompt'') fn_matches),
       []))"

text \<open>
  The tail of both C\# patterns:
  \<^verbatim>\<open>(?:\([^)]*\))?\]\s*(?:public\s+)?(?:async\s+)?(?:Task<?[^>]*>?\s+)?(\w+)\s*\(\<close>
\<close>

definition csharp_tail :: "rx list" where
  "csharp_tail =
     [opt_args, chr CHR '']'', Star space, opt (seq [lit ''public'', plus space]),
      opt (seq [lit ''async'', plus space]),
      opt (seq [lit ''Task'', opt (chr CHR ''<''), Star (none_of ''>''), opt (chr CHR ''>''),
                plus space]),
      Grp 1 (plus word), Star space, chr CHR ''('']"

definition csharp_tool_pattern :: rx where
  "csharp_tool_pattern = seq (lit ''[Tool'' # csharp_tail)"

definition csharp_mcp_tool_pattern :: rx where
  "csharp_mcp_tool_pattern = seq (lit ''[McpTool'' # csharp_tail)"

definition parse_csharp_content :: "string \<Rightarrow> declarations" where
  "parse_csharp_content content =
     (bare_tools (findall1 csharp_tool_pattern content) @
      bare_tools (findall1 csharp_mcp_tool_pattern content),
      [], [])"

text \<open>
  The tail of both Java patterns:
  \<^verbatim>\<open>(?:\([^)]*\))?\s*(?:public\s+)?(?:static\s+)?[\w<>\[\]]+\s+(\w+)\s*\(\<close>
\<close>

definition java_tail :: "rx list" where
  "java_tail =
     [opt_args, Star space, opt (seq [lit ''public'', plus space]),
      opt (seq [lit ''static'', plus space]),
      plus (Cls (\<lambda>c. is_word c \<or> c \<in> set ''<>[]'')), plus space,
      Grp 1 (plus word), Star space, chr CHR ''('']"

definition java_tool_pattern :: rx where
  "java_tool_pattern = seq (lit ''@Tool'' # java_tail)"

definition java_mcp_tool_pattern :: rx where
  "java_mcp_tool_pattern = seq (lit ''@McpTool'' # java_tail)"

definition parse_java_content :: "string \<Rightarrow> declarations" where
  "parse_java_content content =
     (bare_tools (findall1 java_tool_pattern content) @
      bare_tools (findall1 java_mcp_tool_pattern content),
      [], [])"

section \<open>The name resolver\<close>

text \<open>
  \<^verbatim>\<open>rf'enum\s+{enum_name}\s*{{([^}}]+)}}'\<close> and \<^verbatim>\<open>rf'{value_name}\s*=\s*["\']([^"\']+)["\']'\<close>:
  the name taken from the file becomes part of the pattern text as it is.
\<close>

definition enum_pattern :: "string \<Rightarrow> string" where
  "enum_pattern enum_name =
     ''enum'' @ [backslash] @ ''s+'' @ enum_name @ [backslash] @ ''s*{([^}]+)}''"

definition value_pattern :: "string \<Rightarrow> string" where
  "value_pattern value_name =
     value_name @ [backslash] @ ''s*='' @ [backslash] @ ''s*['' @ [dquote, backslash, squote] @
     ''](['' @ ''^'' @ [dquote, backslash, squote] @ '']+)['' @ [dquote, backslash, squote] @ '']''"

text \<open>
  \<^verbatim>\<open>re.search(pattern, text)\<close> with a pattern text compiles the pattern first; a text that is
  \<^verbatim>\<open>None\<close> raises a \<^verbatim>\<open>TypeError\<close>.
\<close>

definition search_text :: "bool \<Rightarrow> string \<Rightarrow> string option \<Rightarrow> error + rmatch option" where
  "search_text dotall pattern text =
     (case re_compile dotall pattern of
        Inl e \<Rightarrow> Inl e
      | Inr r \<Rightarrow> (case text of None \<Rightarrow> Inl TypeError | Some s \<Rightarrow> Inr (re_search r s)))"

definition extract_name_value :: "string \<Rightarrow> string \<Rightarrow> error + string option" where
  "extract_name_value content name_expr0 =
     (let name_expr = strip name_expr0 in
      if startswith name_expr [dquote] \<or> startswith name_expr [squote]
      then Inr (Some (strip_chars [dquote, squote] name_expr))
      else if CHR ''.'' \<in> set name_expr then
        (let (enum_name, value_name) = split_first CHR ''.'' name_expr in
         case search_text True (enum_pattern enum_name) (Some content) of
           Inl e \<Rightarrow> Inl e
         | Inr None \<Rightarrow> Inr (Some (lower value_name))
         | Inr (Some enum_match) \<Rightarrow>
             (case search_text False (value_pattern value_name) (group enum_match 1) of
                Inl e \<Rightarrow> Inl e
              | Inr None \<Rightarrow> Inr (Some (lower value_name))
              | Inr (Some value_match) \<Rightarrow> Inr (group value_match 1)))
      else Inr (Some name_expr))"

section \<open>TypeScript and JavaScript sources\<close>

text \<open>\<^verbatim>\<open>[^,\s]+\<close> and \<^verbatim>\<open>[^{}]\<close>\<close>

definition name_expr_chars :: rx where
  "name_expr_chars = Cls (\<lambda>c. c \<noteq> CHR '','' \<and> \<not> is_space c)"

definition no_brace :: rx where
  "no_brace = none_of ''{}''"

text \<open>
  \<^verbatim>\<open>rf'{{[^{{}}]*name:\s*{re.escape(name_expr)}[^{{}}]*}}'\<close>: the escaped text matches
  \<open>name_expr\<close> literally. \<^verbatim>\<open>inputSchema:\s*([^,}}]+)\<close>
\<close>

definition object_pattern :: "string \<Rightarrow> rx" where
  "object_pattern name_expr =
     seq [chr CHR ''{'', Star no_brace, lit ''name:'', Star space, lit name_expr, Star no_brace,
          chr CHR ''}'']"

definition schema_pattern :: rx where
  "schema_pattern = seq [lit ''inputSchema:'', Star space, Grp 1 (plus (none_of '',}''))]"

definition extract_tool_parameters :: "string \<Rightarrow> string \<Rightarrow> tool_parameter list" where
  "extract_tool_parameters tools_content name_expr =
     (case re_search (object_pattern name_expr) tools_content of
        None \<Rightarrow> []
      | Some tool_match \<Rightarrow>
          (case re_search schema_pattern (m_text tool_match) of
             None \<Rightarrow> []
           | Some schema_match \<Rightarrow>
               [\<lparr>param_name = ''input'', param_type = ''object'',
                 param_description = Some ''Tool input parameters'', param_required = True\<rparr>]))"

text \<open>
  \<^verbatim>\<open>rf'{{[^{{}}]*name:\s*["\']?{re.escape(tool_name)}["\']?[^{{}}]*}}'\<close>,
  \<^verbatim>\<open>properties:\s*{([^{}]+)}\<close> and
  \<^verbatim>\<open>(\w+):\s*{[^{}]*type:\s*["\']([^"\']+)["\'][^{}]*}\<close>
\<close>

definition quoted_object_pattern :: "string \<Rightarrow> rx" where
  "quoted_object_pattern tname =
     seq [chr CHR ''{'', Star no_brace, lit ''name:'', Star space, opt quote, lit tname,
          opt quote, Star no_brace, chr CHR ''}'']"

definition properties_pattern :: rx where
  "properties_pattern =
     seq [lit ''properties:'', Star space, chr CHR ''{'', Grp 1 (plus no_brace), chr CHR ''}'']"

definition param_pattern :: rx where
  "param_pattern =
     seq [Grp 1 (plus word), chr CHR '':'', Star space, chr CHR ''{'', Star no_brace, lit ''type:'',
          Star space, quote, Grp 2 (plus no_quote), quote, Star no_brace, chr CHR ''}'']"

definition extract_input_schema_parameters :: "string \<Rightarrow> string \<Rightarrow> tool_parameter list" where
  "extract_input_schema_parameters tools_content tname =
     (case re_search (quoted_object_pattern tname) tools_content of
        None \<Rightarrow> []
      | Some tool_match \<Rightarrow>
          (case re_search properties_pattern (m_text tool_match) of
             None \<Rightarrow> []
           | Some properties_match \<Rightarrow>
               map (\<lambda>(pname, ptype).
                      \<lparr>param_name = pname, param_type = ptype, param_description = None,
                       param_required = True\<rparr>)
                 (findall2 param_pattern (group_str properties_match 1))))"

text \<open>
  \<^verbatim>\<open>arguments:\s*\[(.*?)\]\<close> and the pattern of one argument, a raw string that is no
  f-string, so that its doubled braces are part of the pattern:
  \<^verbatim>\<open>{{[^{{}}]*name:\s*["\']([^"\']+)["\'][^{{}}]*description:\s*["\']([^"\']*)["\'][^{{}}]*required:\s*(true|false)\<close>
\<close>

definition args_pattern :: rx where
  "args_pattern =
     seq [lit ''arguments:'', Star space, chr CHR ''['', Grp 1 (LazyStar any_char), chr CHR '']'']"

definition arg_pattern :: rx where
  "arg_pattern =
     seq [lit ''{{'', Star no_brace, lit ''name:'', Star space, quote, Grp 1 (plus no_quote), quote,
          Star no_brace, lit ''description:'', Star space, quote, Grp 2 (Star no_quote), quote,
          Star no_brace, lit ''required:'', Star space, Grp 3 (Alt (lit ''true'') (lit ''false''))]"

definition extract_prompt_arguments :: "string \<Rightarrow> string \<Rightarrow> tool_parameter list" where
  "extract_prompt_arguments prompts_content name_expr =
     (case re_search (object_pattern name_expr) prompts_content of
        None \<Rightarrow> []
      | Some prompt_match \<Rightarrow>
          (case re_search args_pattern (m_text prompt_match) of
             None \<Rightarrow> []
           | Some args_match \<Rightarrow>
               map (\<lambda>(name, description, required).
                      \<lparr>param_name = name, param_type = ''string'',
                       param_description = (if description \<noteq> [] then Some description else None),
                       param_required = (lower required = ''true'')\<rparr>)
                 (findall3 arg_pattern (group_str args_match 1))))"

text \<open>A loop whose body may raise: the first exception ends it.\<close>

fun collect :: "('a \<Rightarrow> error + 'b list) \<Rightarrow> 'a list \<Rightarrow> error + 'b list" where
  "collect f [] = Inr []"
| "collect f (x # xs) =
     (case f x of
        Inl e \<Rightarrow> Inl e
      | Inr ys \<Rightarrow> (case collect f xs of Inl e \<Rightarrow> Inl e | Inr zs \<Rightarrow> Inr (ys @ zs)))"

text \<open>
  Pattern 1 of the tools:
  \<^verbatim>\<open>server\.setRequestHandler\(ListToolsRequestSchema.*?const\s+tools:\s*Tool\[\]\s*=\s*\[(.*?)\].*?return\s*{\s*tools\s*}\<close>
  and, in the array found, \<^verbatim>\<open>{\s*name:\s*([^,\s]+)[^{}]*description:\s*["\']([^"\']*)["\']\<close>
\<close>

definition const_tools_pattern :: rx where
  "const_tools_pattern =
     seq [lit ''server.setRequestHandler(ListToolsRequestSchema'', LazyStar any_char, lit ''const'',
          plus space, lit ''tools:'', Star space, lit ''Tool[]'', Star space, chr CHR ''='',
          Star space, chr CHR ''['', Grp 1 (LazyStar any_char), chr CHR '']'', LazyStar any_char,
          lit ''return'', Star space, chr CHR ''{'', Star space, lit ''tools'', Star space,
          chr CHR ''}'']"

definition enum_tool_pattern :: rx where
  "enum_tool_pattern =
     seq [chr CHR ''{'', Star space, lit ''name:'', Star space, Grp 1 (plus name_expr_chars),
          Star no_brace, lit ''description:'', Star space, quote, Grp 2 (Star no_quote), quote]"

definition const_tools :: "string \<Rightarrow> error + mcp_tool list" where
  "const_tools content =
     (case re_search const_tools_pattern content of
        None \<Rightarrow> Inr []
      | Some const_match \<Rightarrow>
          (let tools_array = group_str const_match 1 in
           collect (\<lambda>(name_expr, description).
              case extract_name_value content name_expr of
                Inl e \<Rightarrow> Inl e
              | Inr tname \<Rightarrow>
                  if truthy tname
                  then Inr [mk_tool (case tname of Some n \<Rightarrow> n | None \<Rightarrow> [])
                              (stripped_or_none description)
                              (extract_tool_parameters tools_array name_expr)]
                  else Inr [])
             (findall2 enum_tool_pattern tools_array)))"

text \<open>
  Pattern 2: \<^verbatim>\<open>server\.setRequestHandler\(ListToolsRequestSchema.*?return\s*{.*?tools:\s*\[\<close>,
  then the text up to the bracket that closes the array, and in it
  \<^verbatim>\<open>{\s*name:\s*["\']([^"\']+)["\'].*?description:\s*([^}]+?)(?=\s*,\s*inputSchema|\s*})\<close>
\<close>

definition tools_in_handler_pattern :: rx where
  "tools_in_handler_pattern =
     seq [lit ''server.setRequestHandler(ListToolsRequestSchema'', LazyStar any_char, lit ''return'',
          Star space, chr CHR ''{'', LazyStar any_char, lit ''tools:'', Star space, chr CHR ''['']"

text \<open>
  The loop that counts brackets, on the text from \<^verbatim>\<open>handler_start\<close> on: the count and the
  number of characters read.
\<close>

fun scan_brackets :: "nat \<Rightarrow> nat \<Rightarrow> string \<Rightarrow> nat \<times> nat" where
  "scan_brackets bracket_count i [] = (bracket_count, i)"
| "scan_brackets bracket_count i (x # xs) =
     (if bracket_count > 0
      then scan_brackets
             (if x = CHR ''['' then bracket_count + 1
              else if x = CHR '']'' then bracket_count - 1 else bracket_count)
             (i + 1) xs
      else (bracket_count, i))"

definition tool_obj_pattern :: rx where
  "tool_obj_pattern =
     seq [chr CHR ''{'', Star space, lit ''name:'', Star space, quote, Grp 1 (plus no_quote), quote,
          LazyStar any_char, lit ''description:'', Star space, Grp 2 (lazy_plus (none_of ''}'')),
          Ahead (Alt (seq [Star space, chr CHR '','', Star space, lit ''inputSchema''])
                     (seq [Star space, chr CHR ''}'']))]"

text \<open>\<^verbatim>\<open>\s*\+\s*\<close>\<close>

definition concat_pattern :: rx where
  "concat_pattern = seq [Star space, chr CHR ''+'', Star space]"

definition clean_description :: "string \<Rightarrow> string" where
  "clean_description description =
     (if description \<noteq> []
      then normalize_ws (re_sub quote [] (re_sub concat_pattern '' '' description))
      else description)"

definition handler_tools :: "string \<Rightarrow> mcp_tool list" where
  "handler_tools content =
     (case re_search tools_in_handler_pattern content of
        None \<Rightarrow> []
      | Some handler_match \<Rightarrow>
          (let rest = drop (m_end handler_match) content;
               (bracket_count, i) = scan_brackets 1 0 rest
           in if bracket_count = 0
              then (let tools_section = take (i - 1) rest in
                    map (\<lambda>(name, description).
                           mk_tool (strip name) (stripped_or_none (clean_description description))
                             (extract_input_schema_parameters tools_section name))
                      (findall2 tool_obj_pattern tools_section))
              else []))"

text \<open>
  Pattern 3: \<^verbatim>\<open>async\s*\(\s*\)\s*=>\s*\(\s*{\s*tools:\s*\[([A-Z_]+)\]\<close> and
  \<^verbatim>\<open>rf'const\s+{const_name}:\s*Tool\s*=\s*{{\s*name:\s*["\']([^"\']+)["\'].*?description:\s*`([^`]*)`'\<close>,
  where \<open>const_name\<close> was matched by \<^verbatim>\<open>[A-Z_]+\<close> and stands for itself.
\<close>

definition const_ref_pattern :: rx where
  "const_ref_pattern =
     seq [lit ''async'', Star space, chr CHR ''('', Star space, chr CHR '')'', Star space, lit ''=>'',
          Star space, chr CHR ''('', Star space, chr CHR ''{'', Star space, lit ''tools:'', Star space,
          chr CHR ''['', Grp 1 (plus (Cls (\<lambda>c. in_range CHR ''A'' CHR ''Z'' c \<or> c = CHR ''_''))),
          chr CHR '']'']"

definition const_def_pattern :: "string \<Rightarrow> rx" where
  "const_def_pattern const_name =
     seq [lit ''const'', plus space, lit const_name, chr CHR '':'', Star space, lit ''Tool'',
          Star space, chr CHR ''='', Star space, chr CHR ''{'', Star space, lit ''name:'', Star space,
          quote, Grp 1 (plus no_quote), quote, LazyStar any_char, lit ''description:'', Star space,
          chr CHR ''`'', Grp 2 (Star (none_of ''`'')), chr CHR ''`'']"

definition const_ref_tools :: "string \<Rightarrow> mcp_tool list" where
  "const_ref_tools content =
     (case re_search const_ref_pattern content of
        None \<Rightarrow> []
      | Some const_ref_match \<Rightarrow>
          (case re_search (const_def_pattern (group_str const_ref_match 1)) content of
             None \<Rightarrow> []
           | Some const_def_match \<Rightarrow>
               (let name = group_str const_def_match 1;
                    description = strip (group_str const_def_match 2)
                in [mk_tool (strip name) (if description \<noteq> [] then Some description else None) []])))"

text \<open>
  Pattern 4: \<^verbatim>\<open>const\s+TOOLS\s*:\s*Tool\[\]\s*=\s*\[(.*?)\]\<close> and
  \<^verbatim>\<open>{\s*name:\s*["\']([^"\']+)["\'].*?description:\s*["\']([^"\']*)["\']\<close>
\<close>

definition tools_array_pattern :: rx where
  "tools_array_pattern =
     seq [lit ''const'', plus space, lit ''TOOLS'', Star space, chr CHR '':'', Star space,
          lit ''Tool[]'', Star space, chr CHR ''='', Star space, chr CHR ''['',
          Grp 1 (LazyStar any_char), chr CHR '']'']"

definition array_tool_pattern :: rx where
  "array_tool_pattern =
     seq [chr CHR ''{'', Star space, lit ''name:'', Star space, quote, Grp 1 (plus no_quote), quote,
          LazyStar any_char, lit ''description:'', Star space, quote, Grp 2 (Star no_quote), quote]"

definition stripped_tools :: "(string \<times> string) list \<Rightarrow> mcp_tool list" where
  "stripped_tools matches =
     map (\<lambda>(name, description). mk_tool (strip name) (stripped_or_none description) []) matches"

definition array_tools :: "string \<Rightarrow> mcp_tool list" where
  "array_tools content =
     (case re_search tools_array_pattern content of
        None \<Rightarrow> []
      | Some tools_array_match \<Rightarrow>
          stripped_tools (findall2 array_tool_pattern (group_str tools_array_match 1)))"

text \<open>
  Pattern 5:
  \<^verbatim>\<open>export\s+const\s+(\w+)\s*=\s*{\s*name:\s*["\']([^"\']+)["\'].*?description:\s*["\']([^"\']*)["\']\<close>
\<close>

definition export_tools_pattern :: rx where
  "export_tools_pattern =
     seq [lit ''export'', plus space, lit ''const'', plus space, Grp 1 (plus word), Star space,
          chr CHR ''='', Star space, chr CHR ''{'', Star space, lit ''name:'', Star space, quote,
          Grp 2 (plus no_quote), quote, LazyStar any_char, lit ''description:'', Star space, quote,
          Grp 3 (Star no_quote), quote]"

definition export_tools :: "string \<Rightarrow> mcp_tool list" where
  "export_tools content =
     stripped_tools (map (\<lambda>(const_name, tname, description). (tname, description))
                       (findall3 export_tools_pattern content))"

definition extract_mcp_tools :: "string \<Rightarrow> error + mcp_tool list" where
  "extract_mcp_tools content =
     (case const_tools content of
        Inl e \<Rightarrow> Inl e
      | Inr found \<Rightarrow>
          Inr (found @ handler_tools content @ const_ref_tools content @ array_tools content @
               export_tools content))"

text \<open>
  \<^verbatim>\<open>server\.setRequestHandler\(ListPromptsRequestSchema.*?prompts:\s*\[(.*?)\]\<close> and
  \<^verbatim>\<open>{\s*name:\s*([^,\s]+)[^{}]*?description:\s*["\']([^"\']*?)["\']\<close>
\<close>

definition prompts_pattern :: rx where
  "prompts_pattern =
     seq [lit ''server.setRequestHandler(ListPromptsRequestSchema'', LazyStar any_char,
          lit ''prompts:'', Star space, chr CHR ''['', Grp 1 (LazyStar any_char), chr CHR '']'']"

definition prompt_pattern :: rx where
  "prompt_pattern =
     seq [chr CHR ''{'', Star space, lit ''name:'', Star space, Grp 1 (plus name_expr_chars),
          LazyStar no_brace, lit ''description:'', Star space, quote, Grp 2 (LazyStar no_quote),
          quote]"

definition extract_mcp_prompts :: "string \<Rightarrow> error + mcp_prompt list" where
  "extract_mcp_prompts content =
     (case re_search prompts_pattern content of
        None \<Rightarrow> Inr []
      | Some prompts_match \<Rightarrow>
          (let prompts_array = group_str prompts_match 1 in
           collect (\<lambda>(name_expr, description).
              case extract_name_value content name_expr of
                Inl e \<Rightarrow> Inl e
              | Inr resolved \<Rightarrow>
                  if truthy resolved
                  then Inr [mk_prompt (case resolved of Some n \<Rightarrow> n | None \<Rightarrow> [])
                              (stripped_or_none description)
                              (extract_prompt_arguments prompts_array name_expr)]
                  else Inr [])
             (findall2 prompt_pattern prompts_array)))"

text \<open>
  \<^verbatim>\<open>const\s+ALL_RESOURCES.*?Array\.from\(\{\s*length:\s*(\d+)\<close> without flags, and
  \<^verbatim>\<open>resourceTemplates:\s*\[(.*?)\]\<close> with
  \<^verbatim>\<open>uriTemplate:\s*["\']([^"\']+)["\']\<close>, \<^verbatim>\<open>name:\s*["\']([^"\']+)["\']\<close>,
  \<^verbatim>\<open>description:\s*["\']([^"\']*)["\']\<close>
\<close>

definition resources_pattern :: rx where
  "resources_pattern =
     seq [lit ''const'', plus space, lit ''ALL_RESOURCES'', LazyStar dot, lit ''Array.from({'',
          Star space, lit ''length:'', Star space, Grp 1 (plus digit)]"

definition template_pattern :: rx where
  "template_pattern =
     seq [lit ''resourceTemplates:'', Star space, chr CHR ''['', Grp 1 (LazyStar any_char),
          chr CHR '']'']"

definition uri_pattern :: rx where
  "uri_pattern = seq [lit ''uriTemplate:'', Star space, quote, Grp 1 (plus no_quote), quote]"

definition name_pattern :: rx where
  "name_pattern = seq [lit ''name:'', Star space, quote, Grp 1 (plus no_quote), quote]"

definition desc_pattern :: rx where
  "desc_pattern = seq [lit ''description:'', Star space, quote, Grp 1 (Star no_quote), quote]"

definition numbered_resource :: "nat \<Rightarrow> mcp_resource" where
  "numbered_resource i =
     \<lparr>resource_name = ''Resource '' @ str_of_nat (i + 1),
      resource_description = Some (''Test resource '' @ str_of_nat (i + 1)),
      resource_uri = Some (''test://static/resource/'' @ str_of_nat (i + 1)),
      resource_mime_type = Some (if i mod 2 = 0 then ''text/plain'' else ''application/octet-stream'')\<rparr>"

definition extract_mcp_resources :: "string \<Rightarrow> mcp_resource list" where
  "extract_mcp_resources content =
     (case re_search resources_pattern content of
        None \<Rightarrow> []
      | Some resources_match \<Rightarrow>
          map numbered_resource [0 ..< int_of_digits (group_str resources_match 1)]) @
     (case re_search template_pattern content of
        None \<Rightarrow> []
      | Some template_match \<Rightarrow>
          (let templates_content = group_str template_match 1 in
           case (re_search uri_pattern templates_content,
                 re_search name_pattern templates_content) of
             (Some uri_match, Some name_match) \<Rightarrow>
               [\<lparr>resource_name = group_str name_match 1,
                 resource_description =
                   (case re_search desc_pattern templates_content of
                      None \<Rightarrow> None
                    | Some desc_match \<Rightarrow> Some (group_str desc_match 1)),
                 resource_uri = Some (group_str uri_match 1),
                 resource_mime_type = None\<rparr>]
           | _ \<Rightarrow> []))"

definition parse_typescript_content :: "string \<Rightarrow> error + declarations" where
  "parse_typescript_content content =
     (case extract_mcp_tools content of
        Inl e \<Rightarrow> Inl e
      | Inr found_tools \<Rightarrow>
          (case extract_mcp_prompts content of
             Inl e \<Rightarrow> Inl e
           | Inr found_prompts \<Rightarrow> Inr (found_tools, found_prompts, extract_mcp_resources content)))"

section \<open>Candidate files and directories\<close>

definition relevant_extensions :: "string list" where
  "relevant_extensions =
     [''.py'', ''.ts'', ''.js'', ''.go'', ''.rs'', ''.cs'', ''.csx'', ''.java'',
      ''.tsx'', ''.jsx'', ''.mjs'', ''.cjs'']"

definition skip_patterns :: "string list" where
  "skip_patterns =
     [''test'', ''spec'', ''__test__'', ''.test.'', ''.spec.'',
      ''build'', ''dist'', ''node_modules'', ''.git'',
      ''webpack'', ''babel'', ''eslint'', ''prettier'']"

definition is_relevant_file :: "string \<Rightarrow> bool" where
  "is_relevant_file filename =
     (let filename_lower = lower filename in
      if \<not> list_ex (\<lambda>ext. endswith filename_lower ext) relevant_extensions then False
      else if list_ex (\<lambda>pattern. contains pattern filename_lower) skip_patterns then False
      else True)"

definition skip_dirs :: "string list" where
  "skip_dirs =
     [''node_modules'', ''.git'', ''build'', ''dist'', ''__pycache__'',
      ''.pytest_cache'', ''coverage'', ''.nyc_output'', ''target'',
      ''bin'', ''obj'', ''vendor'', ''.vscode'', ''.idea'']"

definition should_skip_directory :: "string \<Rightarrow> bool" where
  "should_skip_directory dirname = (lower dirname \<in> set skip_dirs)"

text \<open>
  \<^verbatim>\<open>Path(name).suffix\<close> for a POSIX path that does not end with a slash: the last component
  from its last dot on, unless that dot is its first or its last character.
\<close>

definition path_name :: "string \<Rightarrow> string" where
  "path_name p = rev (takeWhile (\<lambda>c. c \<noteq> CHR ''/'') (rev p))"

definition path_suffix :: "string \<Rightarrow> string" where
  "path_suffix p =
     (let name = path_name p;
          after = rev (takeWhile (\<lambda>c. c \<noteq> CHR ''.'') (rev name))
      in if CHR ''.'' \<in> set name \<and> after \<noteq> [] \<and> length after + 1 < length name
         then CHR ''.'' # after else [])"

section \<open>Confidence\<close>

text \<open>Python floats are taken as real numbers.\<close>

definition tools_with_descriptions :: "mcp_server \<Rightarrow> nat" where
  "tools_with_descriptions server =
     length (filter (\<lambda>tool. truthy (tool_description tool)) (tools server))"

definition calculate_extraction_confidence :: "mcp_server \<Rightarrow> int \<Rightarrow> real" where
  "calculate_extraction_confidence server files_processed =
     (let confidence = 0;
          confidence =
            (if tools server \<noteq> [] \<or> prompts server \<noteq> [] \<or> resources server \<noteq> []
             then confidence + 0.5 else confidence);
          tool_count = length (tools server);
          confidence =
            (if tool_count > 0 then confidence + min 0.3 (real tool_count * 0.1) else confidence);
          confidence =
            (if tool_count > 0
             then confidence + (real (tools_with_descriptions server) / real tool_count) * 0.2
             else confidence);
          confidence =
            (if files_processed > 1
             then confidence + min 0.1 (real_of_int files_processed * 0.02) else confidence);
          confidence = (if truthy (error_message server) then confidence * 0.7 else confidence)
      in min 1.0 confidence)"

section \<open>Extraction from the files of a repository\<close>

record file_info =
  file_name :: string
  file_path :: string
  file_content :: string
  file_size :: nat

definition parse_by_extension :: "string \<Rightarrow> string \<Rightarrow> error + declarations" where
  "parse_by_extension file_extension file_content0 =
     (if file_extension = ''.py'' then Inr (parse_python_content file_content0)
      else if file_extension \<in> set [''.js'', ''.ts''] then parse_typescript_content file_content0
      else if file_extension = ''.go'' then Inr (parse_go_content file_content0)
      else if file_extension = ''.rs'' then Inr (parse_rust_content file_content0)
      else if file_extension \<in> set [''.cs'', ''.csx''] then Inr (parse_csharp_content file_content0)
      else if file_extension = ''.java'' then Inr (parse_java_content file_content0)
      else Inr ([], [], []))"

text \<open>
  The state of the loop over the files: the server, the local list \<^verbatim>\<open>extraction_log\<close> and
  the counter \<^verbatim>\<open>files_processed\<close>. An exception raised for a file is caught and logged;
  only \<open>Unmodelled\<close>, which is no exception, ends the loop.
\<close>

record progress =
  server :: mcp_server
  log_lines :: "log_line list"
  files_processed :: int

definition process_file :: "progress \<Rightarrow> file_info \<Rightarrow> error + progress" where
  "process_file st info =
     (if is_relevant_file (file_name info) then
        (case parse_by_extension (path_suffix (file_name info)) (file_content info) of
           Inl Unmodelled \<Rightarrow> Inl Unmodelled
         | Inl e \<Rightarrow> Inr (st\<lparr>log_lines := log_lines st @ [LogErrorParsing (file_path info) e]\<rparr>)
         | Inr (found_tools, found_prompts, found_resources) \<Rightarrow>
             Inr \<lparr>server = (server st)
                      \<lparr>tools := tools (server st) @ found_tools,
                       prompts := prompts (server st) @ found_prompts,
                       resources := resources (server st) @ found_resources\<rparr>,
                   log_lines =
                     (if found_tools \<noteq> [] \<or> found_prompts \<noteq> [] \<or> found_resources \<noteq> []
                      then log_lines st @
                           [LogExtracted (file_path info) (length found_tools)
                              (length found_prompts) (length found_resources)]
                      else log_lines st),
                   files_processed = files_processed st + 1\<rparr>)
      else Inr st)"

fun process_files :: "progress \<Rightarrow> file_info list \<Rightarrow> error + progress" where
  "process_files st [] = Inr st"
| "process_files st (info # infos) =
     (case process_file st info of Inl e \<Rightarrow> Inl e | Inr st' \<Rightarrow> process_files st' infos)"

section \<open>The repository\<close>

text \<open>
  The GitHub client is the environment of the extractor. A call of \<^verbatim>\<open>repo.get_contents\<close>
  answers with a directory listing, a single file, or an exception, and may change the
  state \<open>'w\<close> of the world; \<^verbatim>\<open>get_repo\<close> succeeds or raises. An entry carries its decoded
  text, or \<open>None\<close> where reading or decoding it raises.
\<close>

record entry =
  entry_type :: string
  entry_name :: string
  entry_path :: string
  entry_text :: "string option"
  entry_size :: nat

datatype response = Listing "entry list" | Single entry | Raises error

record 'w github =
  get_repo :: "string \<Rightarrow> 'w \<Rightarrow> error option \<times> 'w"
  get_contents :: "string \<Rightarrow> 'w \<Rightarrow> response \<times> 'w"

text \<open>What the extractor prints, and its counters \<^verbatim>\<open>extraction_stats\<close>.\<close>

datatype message =
    RateLimitWait nat
  | MaxRetriesExceeded string
  | ErrorAccessingPath string
  | ErrorReadingFile string
  | ErrorReadmeFallback error

record stats =
  total_files_processed :: nat
  successful_extractions :: nat
  failed_extractions :: nat
  rate_limit_hits :: nat

record 'w crawl =
  world :: 'w
  files :: "file_info list"
  extraction_stats :: stats
  slept :: "real list"
  printed :: "message list"

definition rate_limit_delay :: real where "rate_limit_delay = 1.0"
definition max_retries :: nat where "max_retries = 3"

definition sleep :: "real \<Rightarrow> 'w crawl \<Rightarrow> 'w crawl" where
  "sleep seconds st = st\<lparr>slept := slept st @ [seconds]\<rparr>"

definition print :: "message \<Rightarrow> 'w crawl \<Rightarrow> 'w crawl" where
  "print msg st = st\<lparr>printed := printed st @ [msg]\<rparr>"

text \<open>
  A traversal ends normally or with an exception that it does not catch; what it did to
  the state up to then stays done.
\<close>

type_synonym 'w step = "error option \<times> 'w crawl"

text \<open>The loop over the entries of one directory; \<open>sub\<close> is the traversal of a subdirectory.\<close>

fun process_contents ::
  "(string \<Rightarrow> 'w crawl \<Rightarrow> 'w step) \<Rightarrow> entry list \<Rightarrow> 'w crawl \<Rightarrow> 'w step"
where
  "process_contents sub [] st = (None, st)"
| "process_contents sub (content # contents) st =
     (if entry_type content = ''file'' \<and> is_relevant_file (entry_name content) then
        (let st1 = sleep (rate_limit_delay / 2) st in
         case entry_text content of
           Some file_content0 \<Rightarrow>
             process_contents sub contents
               (st1\<lparr>files := files st1 @
                        [\<lparr>file_name = entry_name content, file_path = entry_path content,
                          file_content = file_content0, file_size = entry_size content\<rparr>],
                     extraction_stats := (extraction_stats st1)
                        \<lparr>total_files_processed := total_files_processed (extraction_stats st1) + 1\<rparr>\<rparr>)
         | None \<Rightarrow>
             process_contents sub contents
               ((print (ErrorReadingFile (entry_path content)) st1)
                  \<lparr>extraction_stats := (extraction_stats st1)
                     \<lparr>failed_extractions := failed_extractions (extraction_stats st1) + 1\<rparr>\<rparr>))
      else if entry_type content = ''dir'' \<and> \<not> should_skip_directory (entry_name content) then
        (case sub (entry_path content) st of
           (Some e, st') \<Rightarrow> (Some e, st')
         | (None, st') \<Rightarrow> process_contents sub contents st')
      else process_contents sub contents st)"

text \<open>
  The retry loop \<^verbatim>\<open>for retry in range(self.max_retries)\<close> of one directory, from the
  attempt \<open>retry\<close> on. An exception that is no \<^verbatim>\<open>GithubException\<close> is not caught here.
\<close>

function retry_loop ::
  "'w github \<Rightarrow> (string \<Rightarrow> 'w crawl \<Rightarrow> 'w step) \<Rightarrow> string \<Rightarrow> nat \<Rightarrow> 'w crawl \<Rightarrow> 'w step"
where
  "retry_loop gh sub path retry st =
     (if retry < max_retries then
        (let st1 = sleep rate_limit_delay st;
             (answer, w) = get_contents gh path (world st1);
             st2 = st1\<lparr>world := w\<rparr>
         in case answer of
              Listing contents \<Rightarrow> process_contents sub contents st2
            | Single content \<Rightarrow> process_contents sub [content] st2
            | Raises RateLimitExceeded \<Rightarrow>
                (let st3 = st2\<lparr>extraction_stats := (extraction_stats st2)
                            \<lparr>rate_limit_hits := rate_limit_hits (extraction_stats st2) + 1\<rparr>\<rparr>
                 in if retry < max_retries - 1
                    then (let wait_time = 2 ^ retry * 60 in
                          retry_loop gh sub path (retry + 1)
                            (sleep (real wait_time) (print (RateLimitWait wait_time) st3)))
                    else (None, print (MaxRetriesExceeded path) st3))
            | Raises GithubError \<Rightarrow>
                (if retry < max_retries - 1
                 then retry_loop gh sub path (retry + 1) (sleep (2 ^ retry) st2)
                 else (None, print (ErrorAccessingPath path) st2))
            | Raises e \<Rightarrow> (Some e, st2))
      else (None, st))"
  by pat_completeness auto
termination
  by (relation "measure (\<lambda>(gh, sub, path, retry, st). max_retries - retry)") auto

function traverse_directory ::
  "'w github \<Rightarrow> nat \<Rightarrow> string \<Rightarrow> nat \<Rightarrow> 'w crawl \<Rightarrow> 'w step"
where
  "traverse_directory gh max_depth path current_depth st =
     (if current_depth > max_depth then (None, st)
      else retry_loop gh (\<lambda>p s. traverse_directory gh max_depth p (current_depth + 1) s) path 0 st)"
  by pat_completeness auto
termination
  by (relation "measure (\<lambda>(gh, max_depth, path, current_depth, st). max_depth + 1 - current_depth)")
     auto

declare retry_loop.simps [simp del] traverse_directory.simps [simp del]

text \<open>
  \<^verbatim>\<open>_get_all_files_recursive(repo, base_path)\<close> with the default \<^verbatim>\<open>max_depth = 3\<close>; the list
  \<^verbatim>\<open>files\<close> starts empty.
\<close>

definition text_or_empty :: "string option \<Rightarrow> string" where
  "text_or_empty v = (case v of None \<Rightarrow> [] | Some t \<Rightarrow> t)"

definition get_all_files_recursive :: "'w github \<Rightarrow> string option \<Rightarrow> 'w crawl \<Rightarrow> 'w step" where
  "get_all_files_recursive gh base_path st =
     traverse_directory gh 3 (if truthy base_path then text_or_empty base_path else []) 0
       (st\<lparr>files := []\<rparr>)"

section \<open>The documentation fallback\<close>

definition readme_files :: "string list" where
  "readme_files = [''README.md'', ''readme.md'', ''README.rst'', ''README.txt'', ''README'']"

text \<open>
  \<^verbatim>\<open>_get_readme_content\<close>: a \<^verbatim>\<open>GithubException\<close> moves on to the next name; a listing in
  place of a file has no \<^verbatim>\<open>decoded_content\<close>, which raises, as a text that cannot be
  decoded does.
\<close>

fun get_readme_content ::
  "'w github \<Rightarrow> string option \<Rightarrow> string list \<Rightarrow> 'w \<Rightarrow> (error + string option) \<times> 'w"
where
  "get_readme_content gh subpath [] w = (Inr None, w)"
| "get_readme_content gh subpath (filename # filenames) w =
     (let file_path0 = (if truthy subpath then text_or_empty subpath @ ''/'' @ filename
                        else filename);
          (answer, w') = get_contents gh file_path0 w
      in case answer of
           Single content \<Rightarrow>
             (case entry_text content of
                Some readme \<Rightarrow> (Inr (Some readme), w')
              | None \<Rightarrow> (Inl OtherError, w'))
         | Listing contents \<Rightarrow> (Inl OtherError, w')
         | Raises GithubError \<Rightarrow> get_readme_content gh subpath filenames w'
         | Raises RateLimitExceeded \<Rightarrow> get_readme_content gh subpath filenames w'
         | Raises e \<Rightarrow> (Inl e, w'))"

definition extract_from_readme_fallback ::
  "'w github \<Rightarrow> mcp_server \<Rightarrow> string option \<Rightarrow> 'w crawl \<Rightarrow> mcp_server \<times> 'w crawl"
where
  "extract_from_readme_fallback gh srv subpath st =
     (let (readme, w) = get_readme_content gh subpath readme_files (world st);
          st1 = st\<lparr>world := w\<rparr>
      in case readme of
           Inl e \<Rightarrow> (srv, print (ErrorReadmeFallback e) st1)
         | Inr readme_content \<Rightarrow>
             if \<not> truthy readme_content then (srv, st1)
             else (let found = extract_tools_from_markdown (text_or_empty readme_content);
                       srv1 = srv\<lparr>tools := tools srv @ found\<rparr>
                   in if found \<noteq> []
                      then (srv1\<lparr>extraction_log :=
                                   Some ((case extraction_log srv1 of None \<Rightarrow> [] | Some l \<Rightarrow> l) @
                                         [LogReadmeFallback (length found)])\<rparr>,
                            st1)
                      else (srv1, st1)))"

section \<open>Extraction from a GitHub repository\<close>

text \<open>\<^verbatim>\<open>_parse_github_url\<close> on the components of the URL.\<close>

definition parse_github_url :: "url \<Rightarrow> (string \<times> string \<times> string option) option" where
  "parse_github_url parsed =
     (if netloc parsed \<noteq> ''github.com'' then None
      else (let path_parts = split_on CHR ''/'' (strip_chars ''/'' (url_path parsed)) in
            if length path_parts < 2 then None
            else Some (path_parts ! 0, path_parts ! 1,
                       if length path_parts > 4 \<and> path_parts ! 2 = ''tree''
                       then Some (join ''/'' (drop 4 path_parts)) else None)))"

text \<open>
  The handler \<^verbatim>\<open>except Exception\<close> of \<^verbatim>\<open>_extract_from_github_repo\<close>. The text of the
  exception is not modelled beyond the fixed prefix of the message, which makes the
  message non-empty.
\<close>

definition record_failure :: "mcp_server \<Rightarrow> error \<Rightarrow> mcp_server" where
  "record_failure srv e =
     (if \<not> truthy (error_message srv)
      then srv\<lparr>error_message := Some ''Error extracting from GitHub: ''\<rparr> else srv)"

text \<open>
  The result of \<^verbatim>\<open>_extract_from_github_repo\<close>: the server, the state of the extractor and
  of the world, and whether \<^verbatim>\<open>_extract_from_readme_fallback\<close> was called.

  The local list \<^verbatim>\<open>extraction_log\<close> is assigned to the server when it is not empty, and the
  line with the confidence score is appended to the same list afterwards, so the server's
  log ends with that line; an empty list is not assigned.
\<close>

record 'w extraction =
  result :: mcp_server
  final :: "'w crawl"
  fallback_called :: bool

definition extract_from_github_repo ::
  "'w github \<Rightarrow> mcp_server \<Rightarrow> 'w crawl \<Rightarrow> error + 'w extraction"
where
  "extract_from_github_repo gh srv st =
     (case parse_github_url (github_url srv) of
        None \<Rightarrow> Inr \<lparr>result = srv, final = st, fallback_called = False\<rparr>
      | Some (owner, repo_name, subpath) \<Rightarrow>
          (let (failure, w) = get_repo gh (owner @ ''/'' @ repo_name) (world st);
               st1 = st\<lparr>world := w\<rparr>
           in case failure of
                Some e \<Rightarrow>
                  Inr \<lparr>result = record_failure srv e, final = st1, fallback_called = False\<rparr>
              | None \<Rightarrow>
                  (case get_all_files_recursive gh subpath st1 of
                     (Some e, st2) \<Rightarrow>
                       Inr \<lparr>result = record_failure srv e, final = st2, fallback_called = False\<rparr>
                   | (None, st2) \<Rightarrow>
                       (case process_files \<lparr>server = srv, log_lines = [], files_processed = 0\<rparr>
                               (files st2) of
                          Inl e \<Rightarrow> Inl e
                        | Inr fin \<Rightarrow>
                            (let confidence_score =
                                   calculate_extraction_confidence (server fin) (files_processed fin);
                                 srv1 = (if log_lines fin \<noteq> []
                                         then (server fin)\<lparr>extraction_log :=
                                                Some (log_lines fin @ [LogConfidence confidence_score])\<rparr>
                                         else server fin)
                             in if tools srv1 = [] \<and> prompts srv1 = [] \<and> resources srv1 = []
                                then (let (srv2, st3) = extract_from_readme_fallback gh srv1 subpath st2
                                      in Inr \<lparr>result = srv2, final = st3, fallback_called = True\<rparr>)
                                else Inr \<lparr>result = srv1, final = st2, fallback_called = False\<rparr>)))))"

section \<open>Computing matches\<close>

text \<open>
  The equations by which a match on a given text is computed: the continuation of a
  pattern is a stack of frames, and each equation takes one step.
\<close>

lemma run_Nil_fun: "run [] = accept"
  by (intro ext) simp

lemma run_Rx_fun: "run (Rx r # fs) = (\<lambda>s c. m r s c (run fs))"
  by (intro ext) simp

lemma run_Loop_fun:
  "run (Loop a s0 # fs) = (\<lambda>s c. if length s < length s0 then m (Star a) s c (run fs) else None)"
  by (intro ext) simp

lemma run_LazyLoop_fun:
  "run (LazyLoop a s0 # fs) =
     (\<lambda>s c. if length s < length s0 then m (LazyStar a) s c (run fs) else None)"
  by (intro ext) simp

lemma run_Close_fun:
  "run (Close i s0 # fs) = (\<lambda>s c. run fs s (c(i \<mapsto> take (length s0 - length s) s0)))"
  by (intro ext) simp

lemma run_Cls:
  "run (Rx (Cls f) # fs) [] c = None"
  "run (Rx (Cls f) # fs) (x # xs) c = (if f x then run fs xs c else None)"
  by simp_all

lemma run_Eps: "run (Rx Eps # fs) s c = run fs s c"
  by simp

lemma run_Seq: "run (Rx (Seq a b) # fs) s c = run (Rx a # Rx b # fs) s c"
  by (simp add: run_Rx_fun)

lemma run_Alt:
  "run (Rx (Alt a b) # fs) s c =
     (case run (Rx a # fs) s c of Some r \<Rightarrow> Some r | None \<Rightarrow> run (Rx b # fs) s c)"
  by (simp split: option.splits)

lemma run_Star_Cls:
  "run (Rx (Star (Cls f)) # fs) [] c = run fs [] c"
  "run (Rx (Star (Cls f)) # fs) (x # xs) c =
     (if f x
      then (case run (Rx (Star (Cls f)) # fs) xs c of
              Some r \<Rightarrow> Some r
            | None \<Rightarrow> run fs (x # xs) c)
      else run fs (x # xs) c)"
  by simp_all

lemma run_LazyStar_Cls:
  "run (Rx (LazyStar (Cls f)) # fs) [] c = run fs [] c"
  "run (Rx (LazyStar (Cls f)) # fs) (x # xs) c =
     (case run fs (x # xs) c of
        Some r \<Rightarrow> Some r
      | None \<Rightarrow> if f x then run (Rx (LazyStar (Cls f)) # fs) xs c else None)"
  by (simp_all split: option.splits)

lemma run_Star_Grp:
  "run (Rx (Star (Grp i a)) # fs) s c =
     (case run (Rx (Grp i a) # Loop (Grp i a) s # fs) s c of
        Some r \<Rightarrow> Some r
      | None \<Rightarrow> run fs s c)"
  by (simp add: run_Loop_fun)

lemma run_Loop:
  "run (Loop a s0 # fs) s c = (if length s < length s0 then run (Rx (Star a) # fs) s c else None)"
  by simp

lemma run_Grp: "run (Rx (Grp i a) # fs) s c = run (Rx a # Close i s # fs) s c"
  by (simp add: run_Close_fun)

lemma run_Ahead:
  "run (Rx (Ahead a) # fs) s c =
     (case run [Rx a] s c of Some (s', c') \<Rightarrow> run fs s c' | None \<Rightarrow> None)"
  by (simp add: run_Nil_fun)

lemma run_NotAhead:
  "run (Rx (NotAhead a) # fs) s c =
     (case run [Rx a] s c of Some r \<Rightarrow> None | None \<Rightarrow> run fs s c)"
  by (simp add: run_Nil_fun)

lemma run_Eos:
  "run (Rx Eos # fs) [] c = run fs [] c"
  "run (Rx Eos # fs) (x # xs) c = (if x = newline \<and> xs = [] then run fs (x # xs) c else None)"
  by auto

lemma search_from_Nil:
  "search_from r [] i =
     (case run [Rx r] [] Map.empty of
        Some (s', c) \<Rightarrow> Some \<lparr>m_start = i, m_text = [], m_groups = c\<rparr>
      | None \<Rightarrow> None)"
  by (subst search_from.simps) (simp add: run_Nil_fun split: option.splits)

lemma search_from_Cons:
  "search_from r (x # t) i =
     (case run [Rx r] (x # t) Map.empty of
        Some (s', c) \<Rightarrow>
          Some \<lparr>m_start = i, m_text = take (length (x # t) - length s') (x # t), m_groups = c\<rparr>
      | None \<Rightarrow> search_from r t (Suc i))"
  by (subst search_from.simps)
     (simp add: run_Nil_fun del: search_from.simps split: option.splits)

lemmas rx_eval =
  accept_def run_Cls run_Eps run_Seq run_Alt run_Star_Cls run_LazyStar_Cls run_Star_Grp run_Loop
  run_Grp run_Ahead run_NotAhead run_Eos search_from_Nil search_from_Cons re_search_def
  re_finditer.simps re_sub.simps resume_def m_end_def group_str_def group_def
  findall1_def findall2_def findall3_def

lemmas rx_del = m.simps run.simps(2-4) search_from.simps

lemmas rx_shapes =
  seq_def chr_def ichr_def lit_def ilit_def plus_def lazy_plus_def opt_def lazy_opt_def
  any_char_def dot_def space_def word_def digit_def one_of_def none_of_def quote_def no_quote_def

lemmas char_eval =
  is_space_def is_digit_def is_word_def is_ascii_letter_def lower_char_def code_def newline_def
  dquote_def squote_def backslash_def in_range_def char_of_def bit_Suc_0_iff

section \<open>Properties of the file filter\<close>

lemma lower_simps:
  "lower [] = []"
  "lower (c # s) = lower_char c # lower s"
  by (simp_all add: lower_def)

lemma lower_eval:
  "lower ''contest.py'' = ''contest.py''"
  "lower ''distill.ts'' = ''distill.ts''"
  "lower ''Server.PY'' = ''server.py''"
  "lower ''server.txt'' = ''server.txt''"
  by (simp_all add: lower_simps char_eval)

lemma is_relevant_file_char:
  "is_relevant_file f \<longleftrightarrow>
      (\<exists>e \<in> set relevant_extensions. \<exists>stem. lower f = stem @ e) \<and>
      (\<forall>p \<in> set skip_patterns. \<not> (\<exists>pre post. lower f = pre @ p @ post))"
  unfolding is_relevant_file_def Let_def list_ex_iff endswith_def contains_def
    suffix_def sublist_def by auto

text \<open>
  C10. A file is a candidate exactly when its lowercased name ends with a supported
  extension and no skip pattern occurs in it as a substring. The patterns are looked for
  in the name alone, so \<^verbatim>\<open>contest.py\<close> (which contains \<^verbatim>\<open>test\<close>) and \<^verbatim>\<open>distill.ts\<close>
  (which contains \<^verbatim>\<open>dist\<close>) are refused although their extensions are supported.
\<close>

theorem is_relevant_file_iff:
  "(is_relevant_file f \<longleftrightarrow>
      (\<exists>e \<in> set relevant_extensions. \<exists>stem. lower f = stem @ e) \<and>
      (\<forall>p \<in> set skip_patterns. \<not> (\<exists>pre post. lower f = pre @ p @ post))) \<and>
   \<not> is_relevant_file ''contest.py'' \<and> endswith (lower ''contest.py'') ''.py'' \<and>
   \<not> is_relevant_file ''distill.ts'' \<and> endswith (lower ''distill.ts'') ''.ts''"
proof -
  have t: "''test'' \<in> set skip_patterns" and d: "''dist'' \<in> set skip_patterns"
    by (simp_all add: skip_patterns_def)
  have "''contest.py'' = ''con'' @ ''test'' @ ''.py''" by simp
  with t have n1: "\<not> is_relevant_file ''contest.py''"
    unfolding is_relevant_file_char lower_eval by blast
  have "''distill.ts'' = [] @ ''dist'' @ ''ill.ts''" by simp
  with d have n2: "\<not> is_relevant_file ''distill.ts''"
    unfolding is_relevant_file_char lower_eval by blast
  have e1: "endswith (lower ''contest.py'') ''.py''"
    unfolding endswith_def suffix_def lower_eval by (rule exI [of _ "''contest''"]) simp
  have e2: "endswith (lower ''distill.ts'') ''.ts''"
    unfolding endswith_def suffix_def lower_eval by (rule exI [of _ "''distill''"]) simp
  from is_relevant_file_char [of f] n1 n2 e1 e2 show ?thesis by blast
qed

theorem is_relevant_file_iff_witness:
  "is_relevant_file ''Server.PY'' \<and> \<not> is_relevant_file ''server.txt''"
proof -
  have a: "is_relevant_file ''Server.PY''"
    using is_relevant_file_iff [of "''Server.PY''"]
    unfolding lower_eval relevant_extensions_def skip_patterns_def
    by (simp add: append_eq_Cons_conv Cons_eq_append_conv)
  have b: "\<not> is_relevant_file ''server.txt''"
    using is_relevant_file_iff [of "''server.txt''"]
    unfolding lower_eval relevant_extensions_def skip_patterns_def
    by (simp add: append_eq_Cons_conv Cons_eq_append_conv)
  from a b show ?thesis by simp
qed

section \<open>Properties of the confidence score\<close>

text \<open>The sum of the four bonuses, before the penalty and the cap.\<close>

definition bonus_sum :: "mcp_server \<Rightarrow> int \<Rightarrow> real" where
  "bonus_sum srv n =
     (if tools srv \<noteq> [] \<or> prompts srv \<noteq> [] \<or> resources srv \<noteq> [] then 0.5 else 0) +
     (if tools srv \<noteq> [] then min 0.3 (real (length (tools srv)) * 0.1) else 0) +
     (if tools srv \<noteq> []
      then real (tools_with_descriptions srv) / real (length (tools srv)) * 0.2 else 0) +
     (if n > 1 then min 0.1 (real_of_int n * 0.02) else 0)"

lemma confidence_bonus_sum:
  "calculate_extraction_confidence srv n =
     min 1 (if truthy (error_message srv) then bonus_sum srv n * 0.7 else bonus_sum srv n)"
  by (simp add: calculate_extraction_confidence_def bonus_sum_def Let_def)

lemma bonus_sum_nonneg: "0 \<le> bonus_sum srv n"
  unfolding bonus_sum_def by (auto intro!: add_nonneg_nonneg simp: min_def)

lemma bonus_sum_error_message [simp]: "bonus_sum (srv\<lparr>error_message := e\<rparr>) n = bonus_sum srv n"
  by (simp add: bonus_sum_def tools_with_descriptions_def)

definition described_tool :: "string \<Rightarrow> mcp_tool" where
  "described_tool n = mk_tool n (Some ''does something'') []"

definition example_url :: url where
  "example_url = \<lparr>netloc = ''github.com'', url_path = ''/owner/repo''\<rparr>"

definition example_server :: "mcp_tool list \<Rightarrow> string option \<Rightarrow> mcp_server" where
  "example_server ts e =
     \<lparr>server_name = ''example'', github_url = example_url, server_kind = ThirdParty,
      tools = ts, prompts = [], resources = [], error_message = e, extraction_log = None\<rparr>"

definition three_tools :: "mcp_tool list" where
  "three_tools = [described_tool ''a'', described_tool ''b'', described_tool ''c'']"

lemmas example_defs =
  example_server_def three_tools_def described_tool_def mk_tool_def example_url_def
  tools_with_descriptions_def truthy_def

text \<open>
  C2, as stated, fails: with three described tools and five files the bonuses add up to
  1.1, so the score without an error is capped at 1.0, while the score with an error is
  0.77 and not 0.7.
\<close>

theorem confidence_penalty_counterexample:
  "calculate_extraction_confidence (example_server three_tools (Some ''boom'')) 5 = 77 / 100 \<and>
   calculate_extraction_confidence (example_server three_tools None) 5 = 1 \<and>
   calculate_extraction_confidence (example_server three_tools (Some ''boom'')) 5 \<noteq>
     0.7 * calculate_extraction_confidence (example_server three_tools None) 5"
  by (simp add: calculate_extraction_confidence_def example_defs Let_def)

text \<open>
  C2, amended. The penalty is applied before the cap: whenever the score without an error
  is below the cap of 1.0, the score of the same result with an error recorded is exactly
  0.7 times it; in every case it is at least 0.7 times it.
\<close>

theorem confidence_penalty_below_cap:
  assumes "truthy e" and "\<not> truthy e0"
  shows "(calculate_extraction_confidence (srv\<lparr>error_message := e0\<rparr>) n < 1 \<longrightarrow>
            calculate_extraction_confidence (srv\<lparr>error_message := e\<rparr>) n =
              0.7 * calculate_extraction_confidence (srv\<lparr>error_message := e0\<rparr>) n) \<and>
         0.7 * calculate_extraction_confidence (srv\<lparr>error_message := e0\<rparr>) n \<le>
           calculate_extraction_confidence (srv\<lparr>error_message := e\<rparr>) n"
  using assms bonus_sum_nonneg [of srv n] by (auto simp: confidence_bonus_sum min_def)

theorem confidence_penalty_below_cap_witness:
  "truthy (Some ''boom'') \<and> \<not> truthy None \<and>
   calculate_extraction_confidence (example_server [described_tool ''a''] None) 0 = 8 / 10 \<and>
   calculate_extraction_confidence (example_server [described_tool ''a''] (Some ''boom'')) 0 =
     0.7 * calculate_extraction_confidence (example_server [described_tool ''a''] None) 0"
proof -
  have t: "truthy (Some ''boom'')" and f: "\<not> truthy None"
    by (simp_all add: truthy_def)
  have v: "calculate_extraction_confidence (example_server [described_tool ''a''] None) 0 = 8 / 10"
    by (simp add: calculate_extraction_confidence_def example_defs Let_def)
  have u: "example_server [described_tool ''a''] x =
           (example_server [described_tool ''a''] None)\<lparr>error_message := x\<rparr>" for x
    by (simp add: example_server_def)
  from confidence_penalty_below_cap [OF t f, of "example_server [described_tool ''a''] None" 0] v
  have "calculate_extraction_confidence (example_server [described_tool ''a''] (Some ''boom'')) 0 =
     0.7 * calculate_extraction_confidence (example_server [described_tool ''a''] None) 0"
    unfolding u [symmetric] by simp
  with t f v show ?thesis by simp
qed






section \<open>Properties of the documentation miner\<close>

text \<open>
  The section of the claim: the heading \<^verbatim>\<open>## Tools\<close> and the single line under it.
\<close>

definition tools_section :: string where
  "tools_section = ''## Tools'' @ [newline] @ ''- create_entities: Creates new entities''"





lemmas markdown_patterns =
  tool_sections_pattern_def bullet_pattern_def numbered_pattern_def backtick_pattern_def
  name_chars_def sep_chars_def








text \<open>
  A search that succeeds at the position where a text \<open>s\<close> starts has found what the search
  in \<open>s\<close> finds at once.
\<close>

lemma search_from_start: "search_from r s i = Some mo \<Longrightarrow> i \<le> m_start mo"
proof (induction s arbitrary: i)
  case Nil
  then show ?case by (auto split: option.splits)
next
  case (Cons x t)
  show ?case
  proof (cases "m r (x # t) Map.empty accept")
    case None
    with Cons.prems have "search_from r t (Suc i) = Some mo" by simp
    from Cons.IH [OF this] show ?thesis by simp
  next
    case (Some a)
    with Cons.prems show ?thesis by (auto split: prod.splits)
  qed
qed


text \<open>
  The section is matched wherever the text ends after its line (with or without a final
  line break) or goes on with a line that starts with \<^verbatim>\<open>##\<close>.
\<close>

lemma section_found:
  assumes "post = [] \<or> post = [newline] \<or> prefix (newline # ''##'') post"
  shows "search_from tool_sections_pattern (tools_section @ post) i =
     Some \<lparr>m_start = i, m_text = tools_section,
           m_groups = [1 \<mapsto> ''- create_entities: Creates new entities'']\<rparr>"
proof -
  from assms consider "post = []" | "post = [newline]"
    | rest where "post = newline # CHR ''#'' # CHR ''#'' # rest"
    by (auto simp: prefix_def)
  then show ?thesis
  proof cases
    case 1
    then show ?thesis
      unfolding markdown_patterns tools_section_def rx_shapes
      by (simp add: rx_eval char_eval del: rx_del)
  next
    case 2
    then show ?thesis
      unfolding markdown_patterns tools_section_def rx_shapes
      by (simp add: rx_eval char_eval del: rx_del)
  next
    case 3
    then show ?thesis
      unfolding markdown_patterns tools_section_def rx_shapes
      by (simp add: rx_eval char_eval del: rx_del)
  qed
qed

text \<open>
  A text before the section in which the character \<^verbatim>\<open>#\<close> does not occur holds no heading, so
  the first section found is the one that follows it.
\<close>

lemma no_heading_before:
  assumes "CHR ''#'' \<notin> set pre"
    and "post = [] \<or> post = [newline] \<or> prefix (newline # ''##'') post"
  shows "map_option m_start (re_search tool_sections_pattern (pre @ tools_section @ post)) =
         Some (length pre)"
proof -
  have "search_from tool_sections_pattern (pre @ tools_section @ post) i =
     Some \<lparr>m_start = i + length pre, m_text = tools_section,
           m_groups = [1 \<mapsto> ''- create_entities: Creates new entities'']\<rparr>" for i
    using assms(1)
  proof (induction pre arbitrary: i)
    case Nil
    from section_found [OF assms(2), of i] show ?case
      by (simp only: append_Nil list.size Nat.add_0_right)
  next
    case (Cons x pre)
    then have x: "x \<noteq> CHR ''#''" and pre: "CHR ''#'' \<notin> set pre" by auto
    have "search_from tool_sections_pattern ((x # pre) @ tools_section @ post) i =
          search_from tool_sections_pattern (pre @ tools_section @ post) (Suc i)"
      unfolding tool_sections_pattern_def rx_shapes
      using x by (simp add: rx_eval del: rx_del)
    with Cons.IH [OF pre, of "Suc i"] show ?case by simp
  qed
  then show ?thesis by (simp add: re_search_def)
qed






section \<open>Properties of the loop over the files\<close>

definition plain_file :: file_info where
  "plain_file =
     \<lparr>file_name = ''server.py'', file_path = ''src/server.py'', file_content = ''x = 1'',
      file_size = 5\<rparr>"

definition start :: progress where
  "start = \<lparr>server = example_server [] None, log_lines = [], files_processed = 0\<rparr>"

lemmas python_patterns =
  fastmcp_pattern_def server_tool_pattern_def tool_pattern_def add_tool_pattern_def def_tail_def
  opt_args_def

lemma plain_file_facts:
  "is_relevant_file ''server.py''"
  "path_suffix ''server.py'' = ''.py''"
  "parse_python_content ''x = 1'' = ([], [], [])"
proof -
  have l: "lower ''server.py'' = ''server.py''"
    by (simp add: lower_simps char_eval)
  show "is_relevant_file ''server.py''"
    unfolding is_relevant_file_char l relevant_extensions_def skip_patterns_def
    by (simp add: append_eq_Cons_conv Cons_eq_append_conv)
  show "path_suffix ''server.py'' = ''.py''"
    by (simp add: path_suffix_def path_name_def)
  show "parse_python_content ''x = 1'' = ([], [], [])"
    unfolding parse_python_content_def python_patterns rx_shapes
    by (simp add: rx_eval char_eval described_tools_def bare_tools_def del: rx_del)
qed

lemma process_file_nothing_found:
  assumes "is_relevant_file (file_name info)"
    and "parse_by_extension (path_suffix (file_name info)) (file_content info) = Inr ([], [], [])"
  shows "process_file st info = Inr (st\<lparr>files_processed := files_processed st + 1\<rparr>)"
  using assms by (simp add: process_file_def)

text \<open>
  C6, as stated, fails: for the Python file \<^verbatim>\<open>server.py\<close> with the content \<^verbatim>\<open>x = 1\<close>, whose
  extension is recognised and in which no pattern matches, the log after the file is the
  log before it; no line is appended.
\<close>

theorem unmatched_file_counterexample:
  "is_relevant_file (file_name plain_file) \<and>
   parse_by_extension (path_suffix (file_name plain_file)) (file_content plain_file) =
     Inr ([], [], []) \<and>
   process_file start plain_file = Inr (start\<lparr>files_processed := 1\<rparr>) \<and>
   log_lines (start\<lparr>files_processed := 1\<rparr>) = log_lines start \<and>
   length (log_lines (start\<lparr>files_processed := 1\<rparr>)) \<noteq> length (log_lines start) + 1"
proof -
  have r: "is_relevant_file (file_name plain_file)"
    by (simp add: plain_file_def plain_file_facts)
  have p: "parse_by_extension (path_suffix (file_name plain_file)) (file_content plain_file) =
     Inr ([], [], [])"
    by (simp add: plain_file_def plain_file_facts parse_by_extension_def)
  from process_file_nothing_found [OF r p, of start] r p show ?thesis
    by (simp add: start_def)
qed

text \<open>
  C6, amended. Processing a file whose extension is recognised and in which no pattern
  matches leaves the server, its tools, prompts and resources, and the log as they were:
  no log line is written for such a file; only the count of processed files grows by one.
\<close>

theorem unmatched_file_changes_nothing:
  assumes "is_relevant_file (file_name info)"
    and "parse_by_extension (path_suffix (file_name info)) (file_content info) = Inr ([], [], [])"
  shows "\<exists>st'. process_file st info = Inr st' \<and> server st' = server st \<and>
           log_lines st' = log_lines st \<and> files_processed st' = files_processed st + 1"
  using assms by (simp add: process_file_def)

theorem unmatched_file_changes_nothing_witness:
  "is_relevant_file (file_name plain_file) \<and>
   parse_by_extension (path_suffix (file_name plain_file)) (file_content plain_file) =
     Inr ([], [], []) \<and>
   (\<exists>st'. process_file start plain_file = Inr st' \<and> server st' = server start \<and>
           log_lines st' = [] \<and> files_processed st' = 1)"
proof -
  have r: "is_relevant_file (file_name plain_file)"
    by (simp add: plain_file_def plain_file_facts)
  have p: "parse_by_extension (path_suffix (file_name plain_file)) (file_content plain_file) =
     Inr ([], [], [])"
    by (simp add: plain_file_def plain_file_facts parse_by_extension_def)
  from unmatched_file_changes_nothing [OF r p, of start] r p show ?thesis
    by (simp add: start_def)
qed

section \<open>Properties of the name resolver\<close>

lemmas syntax_eval =
  re_compile_def escape_def set_atom_def repeat_def seq_of_def wrap_def enum_pattern_def
  value_pattern_def search_text_def

lemmas text_eval = strip_def strip_chars_def startswith_def split_first_def lower_simps

text \<open>A quoted literal is returned without its quotes, whatever the source text.\<close>

lemma resolve_quoted:
  "extract_name_value content ([dquote] @ ''echo'' @ [dquote]) = Inr (Some ''echo'')"
  "extract_name_value content ([squote] @ ''echo'' @ [squote]) = Inr (Some ''echo'')"
  by (simp_all add: extract_name_value_def text_eval char_eval)

lemma resolve_literal:
  assumes "startswith (strip e) [dquote] \<or> startswith (strip e) [squote]"
  shows "extract_name_value content e = Inr (Some (strip_chars [dquote, squote] (strip e)))"
  using assms by (simp add: extract_name_value_def)

text \<open>The two examples of a qualified name: an enum that defines the member, and none.\<close>

definition echo_enum :: string where
  "echo_enum = ''enum ToolName { ECHO = \"echo_tool\" }''"

lemma resolve_enum_member:
  "extract_name_value echo_enum ''ToolName.ECHO'' = Inr (Some ''echo_tool'')"
  unfolding extract_name_value_def echo_enum_def
  by (simp add: syntax_eval text_eval char_eval rx_shapes rx_eval del: rx_del)

lemma resolve_unknown:
  "extract_name_value ''const x = 1;'' ''ToolName.UNKNOWN'' = Inr (Some ''unknown'')"
  "extract_name_value echo_enum ''ToolName.UNKNOWN'' = Inr (Some ''unknown'')"
  unfolding extract_name_value_def echo_enum_def
  by (simp_all add: syntax_eval text_eval char_eval rx_shapes rx_eval del: rx_del)

text \<open>
  C4. The resolver finds the member by searching the enum block for the text of the
  member name followed by an assignment, so it also finds it at the end of a longer
  member name: in \<^verbatim>\<open>enum T { XA = "x", A = "a" }\<close> the name \<^verbatim>\<open>T.A\<close> resolves to \<^verbatim>\<open>x\<close>, the
  string assigned to \<^verbatim>\<open>XA\<close>, and not to \<^verbatim>\<open>a\<close>, the string assigned to \<^verbatim>\<open>A\<close>.
\<close>

definition two_member_enum :: string where
  "two_member_enum = ''enum T { XA = \"x\", A = \"a\" }''"

theorem resolve_suffix_member:
  "extract_name_value two_member_enum ''T.A'' = Inr (Some ''x'') \<and>
   extract_name_value two_member_enum ''T.A'' \<noteq> Inr (Some ''a'')"
  unfolding extract_name_value_def two_member_enum_def
  by (simp add: syntax_eval text_eval char_eval rx_shapes rx_eval del: rx_del)

text \<open>
  C5. The resolver puts the text before the first dot of a name expression into a
  pattern as it is. For the tool \<^verbatim>\<open>{ name: String(ToolName.ECHO), description: "Echoes" }\<close>
  that text is \<^verbatim>\<open>String(ToolName\<close>, the pattern has an unclosed parenthesis, and compiling
  it raises \<^verbatim>\<open>re.error\<close>: the resolver raises for every source text, and so does the
  TypeScript parser on a source that lists this tool.
\<close>

definition wrapped_name_source :: string where
  "wrapped_name_source =
     ''server.setRequestHandler(ListToolsRequestSchema, async () => { '' @
     ''const tools: Tool[] = [{ name: String(ToolName.ECHO), description: \"Echoes\" }]; '' @
     ''return { tools }; });''"

lemma wrapped_name_raises:
  "extract_name_value content ''String(ToolName.ECHO)'' = Inl ReError"
  unfolding extract_name_value_def
  by (simp add: syntax_eval text_eval char_eval rx_shapes del: rx_del)

lemmas typescript_patterns =
  const_tools_pattern_def enum_tool_pattern_def name_expr_chars_def no_brace_def

lemma wrapped_name_found:
  "re_search const_tools_pattern wrapped_name_source \<noteq> None"
  "map_option (\<lambda>mo. findall2 enum_tool_pattern (group_str mo 1))
     (re_search const_tools_pattern wrapped_name_source) =
   Some [(''String(ToolName.ECHO)'', ''Echoes'')]"
  unfolding typescript_patterns wrapped_name_source_def rx_shapes
  by (simp_all add: rx_eval char_eval del: rx_del)

theorem resolver_raises:
  "extract_name_value content ''String(ToolName.ECHO)'' = Inl ReError \<and>
   parse_typescript_content wrapped_name_source = Inl ReError"
proof -
  from wrapped_name_found obtain mo where
    mo: "re_search const_tools_pattern wrapped_name_source = Some mo" and
    fa: "findall2 enum_tool_pattern (group_str mo 1) = [(''String(ToolName.ECHO)'', ''Echoes'')]"
    by auto
  have "const_tools wrapped_name_source = Inl ReError"
    by (simp add: const_tools_def mo Let_def fa [simplified] wrapped_name_raises)
  then have "parse_typescript_content wrapped_name_source = Inl ReError"
    by (simp add: parse_typescript_content_def extract_mcp_tools_def)
  with wrapped_name_raises show ?thesis by simp
qed

section \<open>Properties of the traversal and of the fallback\<close>

text \<open>
  A repository whose root lists the directory \<^verbatim>\<open>src\<close> and the file \<^verbatim>\<open>main.py\<close>, where
  listing \<^verbatim>\<open>src\<close> is always refused for the rate limit and no README exists. The world
  counts the calls.
\<close>

definition limited_answer :: "string \<Rightarrow> response" where
  "limited_answer path =
     (if path = [] then
        Listing [\<lparr>entry_type = ''dir'', entry_name = ''src'', entry_path = ''src'',
                  entry_text = None, entry_size = 0\<rparr>,
                 \<lparr>entry_type = ''file'', entry_name = ''main.py'', entry_path = ''main.py'',
                  entry_text = Some ''x = 1'', entry_size = 5\<rparr>]
      else if path = ''src'' then Raises RateLimitExceeded
      else Raises GithubError)"

definition limited_repo :: "nat github" where
  "limited_repo =
     \<lparr>get_repo = (\<lambda>name w. (None, Suc w)),
      get_contents = (\<lambda>path w. (limited_answer path, Suc w))\<rparr>"

definition fresh :: "nat crawl" where
  "fresh =
     \<lparr>world = 0, files = [],
      extraction_stats = \<lparr>total_files_processed = 0, successful_extractions = 0,
                           failed_extractions = 0, rate_limit_hits = 0\<rparr>,
      slept = [], printed = []\<rparr>"

definition gitlab_server :: mcp_server where
  "gitlab_server = (example_server [] None)\<lparr>github_url := \<lparr>netloc = ''gitlab.com'', url_path = ''/owner/repo''\<rparr>\<rparr>"

text \<open>
  A repository that cannot be obtained, and one whose contents cannot be listed for a
  reason that is no \<^verbatim>\<open>GithubException\<close>.
\<close>

definition missing_repo :: "nat github" where
  "missing_repo =
     \<lparr>get_repo = (\<lambda>name w. (Some GithubError, Suc w)),
      get_contents = (\<lambda>path w. (Raises GithubError, Suc w))\<rparr>"

definition broken_repo :: "nat github" where
  "broken_repo =
     \<lparr>get_repo = (\<lambda>name w. (None, Suc w)),
      get_contents = (\<lambda>path w. (Raises OtherError, Suc w))\<rparr>"

lemma broken_traversal:
  "get_all_files_recursive broken_repo None (fresh\<lparr>world := 1\<rparr>) =
     (Some OtherError, fresh\<lparr>world := 2, slept := [1]\<rparr>)"
  by (simp add: get_all_files_recursive_def truthy_def traverse_directory.simps [of _ _ _ 0]
        retry_loop.simps [of _ _ _ 0] max_retries_def sleep_def rate_limit_delay_def
        broken_repo_def fresh_def)

lemma retry_rate_limited:
  assumes "fst (get_contents gh path (world st)) = Raises RateLimitExceeded" and "retry < 3"
  shows "retry_loop gh sub path retry st =
     (let st3 = st\<lparr>slept := slept st @ [1], world := snd (get_contents gh path (world st)),
                    extraction_stats := (extraction_stats st)
                      \<lparr>rate_limit_hits := rate_limit_hits (extraction_stats st) + 1\<rparr>\<rparr>
      in if retry < 2
         then retry_loop gh sub path (retry + 1)
                (st3\<lparr>printed := printed st3 @ [RateLimitWait (2 ^ retry * 60)],
                      slept := slept st3 @ [real (2 ^ retry * 60)]\<rparr>)
         else (None, st3\<lparr>printed := printed st3 @ [MaxRetriesExceeded path]\<rparr>))"
proof (cases "get_contents gh path (world st)")
  case (Pair answer w)
  with assms(1) have "get_contents gh path (world st) = (Raises RateLimitExceeded, w)" by simp
  with assms(2) show ?thesis
    by (subst retry_loop.simps)
       (simp add: max_retries_def sleep_def print_def rate_limit_delay_def Let_def
          del: retry_loop.simps)
qed

lemma retry_github_error:
  assumes "fst (get_contents gh path (world st)) = Raises GithubError" and "retry < 3"
  shows "retry_loop gh sub path retry st =
     (let st2 = st\<lparr>slept := slept st @ [1], world := snd (get_contents gh path (world st))\<rparr>
      in if retry < 2
         then retry_loop gh sub path (retry + 1) (st2\<lparr>slept := slept st2 @ [2 ^ retry]\<rparr>)
         else (None, st2\<lparr>printed := printed st2 @ [ErrorAccessingPath path]\<rparr>))"
proof (cases "get_contents gh path (world st)")
  case (Pair answer w)
  with assms(1) have "get_contents gh path (world st) = (Raises GithubError, w)" by simp
  with assms(2) show ?thesis
    by (subst retry_loop.simps)
       (simp add: max_retries_def sleep_def print_def rate_limit_delay_def Let_def
          del: retry_loop.simps)
qed

text \<open>The world after one more call of \<^verbatim>\<open>get_contents\<close> on a path.\<close>

definition after_call :: "'w github \<Rightarrow> string \<Rightarrow> 'w \<Rightarrow> 'w" where
  "after_call gh path w = snd (get_contents gh path w)"

lemma rate_limited_thrice:
  assumes "\<And>w. fst (get_contents gh path w) = Raises RateLimitExceeded"
  shows "retry_loop gh sub path 0 st =
     (None, st\<lparr>world := after_call gh path (after_call gh path (after_call gh path (world st))),
               slept := slept st @ [1, 60, 1, 120, 1],
               printed := printed st @ [RateLimitWait 60, RateLimitWait 120, MaxRetriesExceeded path],
               extraction_stats := (extraction_stats st)
                 \<lparr>rate_limit_hits := rate_limit_hits (extraction_stats st) + 3\<rparr>\<rparr>)"
  by (simp add: retry_rate_limited assms Let_def after_call_def del: retry_loop.simps)

lemma github_error_thrice:
  assumes "\<And>w. fst (get_contents gh path w) = Raises GithubError"
  shows "retry_loop gh sub path 0 st =
     (None, st\<lparr>world := after_call gh path (after_call gh path (after_call gh path (world st))),
               slept := slept st @ [1, 1, 1, 2, 1],
               printed := printed st @ [ErrorAccessingPath path]\<rparr>)"
  by (simp add: retry_github_error assms Let_def after_call_def del: retry_loop.simps)

lemma traverse_within_depth:
  assumes "current_depth \<le> max_depth"
  shows "traverse_directory gh max_depth path current_depth st =
     retry_loop gh (\<lambda>p s. traverse_directory gh max_depth p (current_depth + 1) s) path 0 st"
  using assms by (subst traverse_directory.simps) simp

text \<open>
  C9, as stated, fails in its last part: in the repository above the directory \<^verbatim>\<open>src\<close> is
  given up after three refusals, the traversal goes on to \<^verbatim>\<open>main.py\<close> and the extraction
  ends without an error message, but the server's extraction log stays unset; the failure
  is only printed and counted.
\<close>

lemma limited_traversal:
  "get_all_files_recursive limited_repo None (fresh\<lparr>world := 1\<rparr>) =
     (None,
      \<lparr>world = 5,
       files = [\<lparr>file_name = ''main.py'', file_path = ''main.py'', file_content = ''x = 1'',
                 file_size = 5\<rparr>],
       extraction_stats = \<lparr>total_files_processed = 1, successful_extractions = 0,
                            failed_extractions = 0, rate_limit_hits = 3\<rparr>,
       slept = [1, 1, 60, 1, 120, 1, 1 / 2],
       printed = [RateLimitWait 60, RateLimitWait 120, MaxRetriesExceeded ''src'']\<rparr>)"
proof -
  have src: "fst (get_contents limited_repo ''src'' w) = Raises RateLimitExceeded" for w
    by (simp add: limited_repo_def limited_answer_def)
  have main: "is_relevant_file ''main.py''"
  proof -
    have l: "lower ''main.py'' = ''main.py''"
      by (simp add: lower_simps char_eval)
    show ?thesis
      unfolding is_relevant_file_char l relevant_extensions_def skip_patterns_def
      by (simp add: append_eq_Cons_conv Cons_eq_append_conv)
  qed
  have dir: "\<not> should_skip_directory ''src''"
    by (simp add: should_skip_directory_def skip_dirs_def lower_simps char_eval)
  have call: "after_call limited_repo p w = Suc w" for p w
    by (simp add: after_call_def limited_repo_def)
  have sub: "traverse_directory limited_repo 3 ''src'' (Suc 0) st =
     (None, st\<lparr>world := Suc (Suc (Suc (world st))),
               slept := slept st @ [1, 60, 1, 120, 1],
               printed := printed st @ [RateLimitWait 60, RateLimitWait 120, MaxRetriesExceeded ''src''],
               extraction_stats := (extraction_stats st)
                 \<lparr>rate_limit_hits := rate_limit_hits (extraction_stats st) + 3\<rparr>\<rparr>)" for st
  proof -
    have "traverse_directory limited_repo 3 ''src'' (Suc 0) st =
          retry_loop limited_repo (\<lambda>p s. traverse_directory limited_repo 3 p (Suc 0 + 1) s) ''src'' 0 st"
      by (rule traverse_within_depth) simp
    then show ?thesis
      unfolding rate_limited_thrice [OF src] call .
  qed
  have root: "get_contents limited_repo [] w =
     (Listing [\<lparr>entry_type = ''dir'', entry_name = ''src'', entry_path = ''src'',
                 entry_text = None, entry_size = 0\<rparr>,
                \<lparr>entry_type = ''file'', entry_name = ''main.py'', entry_path = ''main.py'',
                 entry_text = Some ''x = 1'', entry_size = 5\<rparr>], Suc w)" for w
    by (simp add: limited_repo_def limited_answer_def)
  have top: "traverse_directory limited_repo 3 [] 0 st =
          retry_loop limited_repo (\<lambda>p s. traverse_directory limited_repo 3 p (Suc 0) s) [] 0 st" for st
    using traverse_within_depth [of 0 3 limited_repo "[]" st] by simp
  have none: "(if truthy None then text_or_empty None else []) = []"
    by (simp add: truthy_def)
  show ?thesis
    unfolding get_all_files_recursive_def none top
    apply (subst retry_loop.simps)
    apply (simp add: root max_retries_def sleep_def rate_limit_delay_def fresh_def Let_def main dir
        truthy_def sub del: traverse_directory.simps retry_loop.simps)
    done
qed

definition limited_final :: "nat crawl" where
  "limited_final =
     \<lparr>world = 10,
      files = [\<lparr>file_name = ''main.py'', file_path = ''main.py'', file_content = ''x = 1'',
                file_size = 5\<rparr>],
      extraction_stats = \<lparr>total_files_processed = 1, successful_extractions = 0,
                           failed_extractions = 0, rate_limit_hits = 3\<rparr>,
      slept = [1, 1, 60, 1, 120, 1, 1 / 2],
      printed = [RateLimitWait 60, RateLimitWait 120, MaxRetriesExceeded ''src'']\<rparr>"

lemma example_url_parsed:
  "parse_github_url (github_url (example_server ts e)) = Some (''owner'', ''repo'', None)"
  by (simp add: parse_github_url_def example_server_def example_url_def strip_chars_def)

lemma limited_files:
  "process_files \<lparr>server = srv, log_lines = [], files_processed = 0\<rparr>
     [\<lparr>file_name = ''main.py'', file_path = ''main.py'', file_content = ''x = 1'', file_size = 5\<rparr>] =
   Inr \<lparr>server = srv, log_lines = [], files_processed = 1\<rparr>"
proof -
  have l: "lower ''main.py'' = ''main.py''"
    by (simp add: lower_simps char_eval)
  have r: "is_relevant_file ''main.py''"
    unfolding is_relevant_file_char l relevant_extensions_def skip_patterns_def
    by (simp add: append_eq_Cons_conv Cons_eq_append_conv)
  have s: "path_suffix ''main.py'' = ''.py''"
    by (simp add: path_suffix_def path_name_def)
  show ?thesis
    by (simp add: process_file_def r s parse_by_extension_def plain_file_facts)
qed

lemma limited_readme:
  "get_readme_content limited_repo None readme_files w = (Inr None, w + 5)"
  by (simp add: readme_files_def limited_repo_def limited_answer_def truthy_def)

lemma limited_extraction:
  "extract_from_github_repo limited_repo (example_server [] None) fresh =
     Inr \<lparr>result = example_server [] None, final = limited_final, fallback_called = True\<rparr>"
proof -
  have repo: "get_repo limited_repo n (world fresh) = (None, 1)" for n
    by (simp add: limited_repo_def fresh_def)
  have empty: "tools (example_server [] None) = []" "prompts (example_server [] None) = []"
    "resources (example_server [] None) = []"
    by (simp_all add: example_server_def)
  show ?thesis
    apply (simp only: extract_from_github_repo_def example_url_parsed option.case prod.case repo
        Let_def limited_traversal crawl.select_convs limited_files sum.case)
    apply (simp add: empty extract_from_readme_fallback_def limited_readme truthy_def
        limited_final_def)
    done
qed

theorem exhausted_retries_counterexample:
  "extract_from_github_repo limited_repo (example_server [] None) fresh =
     Inr \<lparr>result = example_server [] None, final = limited_final, fallback_called = True\<rparr> \<and>
   MaxRetriesExceeded ''src'' \<in> set (printed limited_final) \<and>
   rate_limit_hits (extraction_stats limited_final) = 3 \<and>
   map file_name (files limited_final) = [''main.py''] \<and>
   error_message (example_server [] None) = None \<and>
   extraction_log (example_server [] None) = None"
  using limited_extraction by (simp add: limited_final_def example_server_def)

text \<open>
  C9, amended. A directory whose listing is refused at every attempt is tried three times.
  For the rate limit the extractor waits 60 and then 120 seconds between the attempts (and
  one second before each), counts three hits and prints that the retries are used up; for
  another GitHub error it waits 1 and then 2 seconds and prints the error. In both cases
  the traversal of that directory returns without an exception and with the list of files
  as it was, and the loop over the parent directory goes on with the next entry. The
  failure is printed and counted only: the traversal has no access to the extraction
  log, and nothing is appended to it.
\<close>

theorem exhausted_retries_skip_directory:
  assumes "current_depth \<le> max_depth"
  shows
    "((\<forall>w. fst (get_contents gh path w) = Raises RateLimitExceeded) \<longrightarrow>
        traverse_directory gh max_depth path current_depth st =
          (None, st\<lparr>world := after_call gh path (after_call gh path (after_call gh path (world st))),
                    slept := slept st @ [1, 60, 1, 120, 1],
                    printed := printed st @
                      [RateLimitWait 60, RateLimitWait 120, MaxRetriesExceeded path],
                    extraction_stats := (extraction_stats st)
                      \<lparr>rate_limit_hits := rate_limit_hits (extraction_stats st) + 3\<rparr>\<rparr>)) \<and>
     ((\<forall>w. fst (get_contents gh path w) = Raises GithubError) \<longrightarrow>
        traverse_directory gh max_depth path current_depth st =
          (None, st\<lparr>world := after_call gh path (after_call gh path (after_call gh path (world st))),
                    slept := slept st @ [1, 1, 1, 2, 1],
                    printed := printed st @ [ErrorAccessingPath path]\<rparr>)) \<and>
     (entry_type d = ''dir'' \<and> \<not> should_skip_directory (entry_name d) \<and>
      sub (entry_path d) st = (None, st') \<longrightarrow>
        process_contents sub (d # ds) st = process_contents sub ds st')"
proof (intro conjI impI)
  assume "\<forall>w. fst (get_contents gh path w) = Raises RateLimitExceeded"
  then show "traverse_directory gh max_depth path current_depth st =
          (None, st\<lparr>world := after_call gh path (after_call gh path (after_call gh path (world st))),
                    slept := slept st @ [1, 60, 1, 120, 1],
                    printed := printed st @
                      [RateLimitWait 60, RateLimitWait 120, MaxRetriesExceeded path],
                    extraction_stats := (extraction_stats st)
                      \<lparr>rate_limit_hits := rate_limit_hits (extraction_stats st) + 3\<rparr>\<rparr>)"
    unfolding traverse_within_depth [OF assms] by (intro rate_limited_thrice) simp
next
  assume "\<forall>w. fst (get_contents gh path w) = Raises GithubError"
  then show "traverse_directory gh max_depth path current_depth st =
          (None, st\<lparr>world := after_call gh path (after_call gh path (after_call gh path (world st))),
                    slept := slept st @ [1, 1, 1, 2, 1],
                    printed := printed st @ [ErrorAccessingPath path]\<rparr>)"
    unfolding traverse_within_depth [OF assms] by (intro github_error_thrice) simp
next
  assume "entry_type d = ''dir'' \<and> \<not> should_skip_directory (entry_name d) \<and>
      sub (entry_path d) st = (None, st')"
  then show "process_contents sub (d # ds) st = process_contents sub ds st'"
    by simp
qed

theorem exhausted_retries_skip_directory_witness:
  "(0::nat) \<le> 3 \<and> (\<forall>w. fst (get_contents limited_repo ''src'' w) = Raises RateLimitExceeded) \<and>
   traverse_directory limited_repo 3 ''src'' 0 fresh =
     (None, fresh\<lparr>world := 3, slept := [1, 60, 1, 120, 1],
                  printed := [RateLimitWait 60, RateLimitWait 120, MaxRetriesExceeded ''src''],
                  extraction_stats := (extraction_stats fresh)\<lparr>rate_limit_hits := 3\<rparr>\<rparr>)"
proof -
  have src: "\<forall>w. fst (get_contents limited_repo ''src'' w) = Raises RateLimitExceeded"
    by (simp add: limited_repo_def limited_answer_def)
  have call: "after_call limited_repo p w = Suc w" for p w
    by (simp add: after_call_def limited_repo_def)
  have le: "(0::nat) \<le> 3" by simp
  from exhausted_retries_skip_directory [OF le, of limited_repo "''src''" fresh] src
  have "traverse_directory limited_repo 3 ''src'' 0 fresh =
     (None, fresh\<lparr>world := after_call limited_repo ''src''
                     (after_call limited_repo ''src'' (after_call limited_repo ''src'' (world fresh))),
                  slept := slept fresh @ [1, 60, 1, 120, 1],
                  printed := printed fresh @
                    [RateLimitWait 60, RateLimitWait 120, MaxRetriesExceeded ''src''],
                  extraction_stats := (extraction_stats fresh)
                    \<lparr>rate_limit_hits := rate_limit_hits (extraction_stats fresh) + 3\<rparr>\<rparr>)"
    by blast
  then show ?thesis
    using src by (simp add: call fresh_def)
qed

lemma process_file_unmodelled: "process_file st info = Inl e \<Longrightarrow> e = Unmodelled"
  by (auto simp add: process_file_def split: if_splits sum.splits error.splits prod.splits)

lemma process_files_unmodelled: "process_files st infos = Inl e \<Longrightarrow> e = Unmodelled"
  by (induction infos arbitrary: st) (auto split: sum.splits dest: process_file_unmodelled)

text \<open>
  C3, as stated, fails: a server whose address is not on \<^verbatim>\<open>github.com\<close> is returned as it
  is, with all three collections empty and without the fallback having been called.
\<close>

theorem fallback_counterexample:
  "extract_from_github_repo limited_repo gitlab_server fresh =
     Inr \<lparr>result = gitlab_server, final = fresh, fallback_called = False\<rparr> \<and>
   tools gitlab_server = [] \<and> prompts gitlab_server = [] \<and> resources gitlab_server = []"
  by (simp add: extract_from_github_repo_def parse_github_url_def gitlab_server_def
        example_server_def)

text \<open>
  C3, amended. The fallback is called if and only if the address of the server has been
  read as a GitHub repository, the repository has been obtained, its files have been
  collected without an exception, and the loop over the files left the tools, the prompts
  and the resources of the server all empty; so it is never called once the loop has left
  a declaration of any kind. When the address is not read as a GitHub repository the
  server is returned as it is, and when obtaining the repository or collecting the files
  raises the error is recorded and the server returned: the fallback is not called in
  either case, although the three collections may be empty. The loop over the files has
  no result here only when the name resolver builds a pattern outside the syntax of
  regular expressions covered by \<^const>\<open>re_compile\<close>; the extraction then has none either.
\<close>

theorem fallback_iff_nothing_extracted:
  "(parse_github_url (github_url srv) = None \<longrightarrow>
      extract_from_github_repo gh srv st =
        Inr \<lparr>result = srv, final = st, fallback_called = False\<rparr>) \<and>
   (parse_github_url (github_url srv) = Some (owner, repo_name, subpath) \<longrightarrow>
      (get_repo gh (owner @ ''/'' @ repo_name) (world st) = (Some e, w) \<longrightarrow>
         extract_from_github_repo gh srv st =
           Inr \<lparr>result = record_failure srv e, final = st\<lparr>world := w\<rparr>, fallback_called = False\<rparr>) \<and>
      (get_repo gh (owner @ ''/'' @ repo_name) (world st) = (None, w) \<longrightarrow>
         (get_all_files_recursive gh subpath (st\<lparr>world := w\<rparr>) = (Some e, st2) \<longrightarrow>
            extract_from_github_repo gh srv st =
              Inr \<lparr>result = record_failure srv e, final = st2, fallback_called = False\<rparr>) \<and>
         (get_all_files_recursive gh subpath (st\<lparr>world := w\<rparr>) = (None, st2) \<longrightarrow>
          process_files \<lparr>server = srv, log_lines = [], files_processed = 0\<rparr> (files st2) = Inr fin \<longrightarrow>
            (\<exists>r. extract_from_github_repo gh srv st = Inr r \<and>
                 (fallback_called r \<longleftrightarrow>
                    tools (server fin) = [] \<and> prompts (server fin) = [] \<and>
                    resources (server fin) = []))) \<and>
         (get_all_files_recursive gh subpath (st\<lparr>world := w\<rparr>) = (None, st2) \<longrightarrow>
          process_files \<lparr>server = srv, log_lines = [], files_processed = 0\<rparr> (files st2) = Inl e \<longrightarrow>
            e = Unmodelled \<and> extract_from_github_repo gh srv st = Inl e)))"
  by (auto simp add: extract_from_github_repo_def Let_def dest: process_files_unmodelled
        split: prod.splits)

theorem fallback_iff_nothing_extracted_witness:
  "extract_from_github_repo limited_repo gitlab_server fresh =
     Inr \<lparr>result = gitlab_server, final = fresh, fallback_called = False\<rparr> \<and>
   extract_from_github_repo missing_repo (example_server [] None) fresh =
     Inr \<lparr>result = record_failure (example_server [] None) GithubError,
          final = fresh\<lparr>world := 1\<rparr>, fallback_called = False\<rparr> \<and>
   extract_from_github_repo broken_repo (example_server [] None) fresh =
     Inr \<lparr>result = record_failure (example_server [] None) OtherError,
          final = fresh\<lparr>world := 2, slept := [1]\<rparr>, fallback_called = False\<rparr> \<and>
   (\<exists>r. extract_from_github_repo limited_repo (example_server [] None) fresh = Inr r \<and>
        fallback_called r) \<and>
   (\<exists>r. extract_from_github_repo limited_repo (example_server [described_tool ''a''] None) fresh = Inr r \<and>
        \<not> fallback_called r)"
proof -
  let ?st2 = "\<lparr>world = 5,
       files = [\<lparr>file_name = ''main.py'', file_path = ''main.py'', file_content = ''x = 1'',
                 file_size = 5\<rparr>],
       extraction_stats = \<lparr>total_files_processed = 1, successful_extractions = 0,
                            failed_extractions = 0, rate_limit_hits = 3\<rparr>,
       slept = [1, 1, 60, 1, 120, 1, 1 / 2],
       printed = [RateLimitWait 60, RateLimitWait 120, MaxRetriesExceeded ''src'']\<rparr> :: nat crawl"
  have files_done: "process_files \<lparr>server = srv, log_lines = [], files_processed = 0\<rparr> (files ?st2) =
     Inr \<lparr>server = srv, log_lines = [], files_processed = 1\<rparr>" for srv
    by (simp only: crawl.select_convs limited_files)
  have not_github: "parse_github_url (github_url gitlab_server) = None"
    by (simp add: parse_github_url_def gitlab_server_def example_server_def)
  have limited: "get_repo limited_repo (''owner'' @ ''/'' @ ''repo'') (world fresh) = (None, 1)"
    by (simp add: limited_repo_def fresh_def)
  have missing: "get_repo missing_repo (''owner'' @ ''/'' @ ''repo'') (world fresh) = (Some GithubError, 1)"
    by (simp add: missing_repo_def fresh_def)
  have broken: "get_repo broken_repo (''owner'' @ ''/'' @ ''repo'') (world fresh) = (None, 1)"
    by (simp add: broken_repo_def fresh_def)
  have a: "extract_from_github_repo limited_repo gitlab_server fresh =
     Inr \<lparr>result = gitlab_server, final = fresh, fallback_called = False\<rparr>"
    using fallback_iff_nothing_extracted [where srv = gitlab_server and gh = limited_repo and st = fresh] not_github by simp
  have b: "extract_from_github_repo missing_repo (example_server [] None) fresh =
     Inr \<lparr>result = record_failure (example_server [] None) GithubError,
          final = fresh\<lparr>world := 1\<rparr>, fallback_called = False\<rparr>"
    using fallback_iff_nothing_extracted [where srv = "example_server [] None" and owner = "''owner''" and repo_name = "''repo''"
                and subpath = None and gh = missing_repo and st = fresh and e = GithubError
                and w = 1]
      example_url_parsed [of "[]" None] missing by simp
  have c: "extract_from_github_repo broken_repo (example_server [] None) fresh =
     Inr \<lparr>result = record_failure (example_server [] None) OtherError,
          final = fresh\<lparr>world := 2, slept := [1]\<rparr>, fallback_called = False\<rparr>"
    using fallback_iff_nothing_extracted [where srv = "example_server [] None" and owner = "''owner''" and repo_name = "''repo''"
                and subpath = None and gh = broken_repo and st = fresh and e = OtherError
                and w = 1 and ?st2.0 = "fresh\<lparr>world := 2, slept := [1]\<rparr>"]
      example_url_parsed [of "[]" None] broken broken_traversal by simp
  have d: "\<exists>r. extract_from_github_repo limited_repo (example_server [] None) fresh = Inr r \<and>
        fallback_called r"
    using fallback_iff_nothing_extracted [where srv = "example_server [] None" and owner = "''owner''" and repo_name = "''repo''"
                and subpath = None and gh = limited_repo and st = fresh and w = 1
                and ?st2.0 = ?st2
                and fin = "\<lparr>server = example_server [] None, log_lines = [], files_processed = 1\<rparr>"]
      example_url_parsed [of "[]" None] limited limited_traversal
      files_done [of "example_server [] None"]
    by (simp add: example_server_def)
  have e: "\<exists>r. extract_from_github_repo limited_repo (example_server [described_tool ''a''] None) fresh = Inr r \<and>
        \<not> fallback_called r"
    using fallback_iff_nothing_extracted [where srv = "example_server [described_tool ''a''] None" and owner = "''owner''"
                and repo_name = "''repo''" and subpath = None and gh = limited_repo
                and st = fresh and w = 1 and ?st2.0 = ?st2
                and fin = "\<lparr>server = example_server [described_tool ''a''] None, log_lines = [],
                            files_processed = 1\<rparr>"]
      example_url_parsed [of "[described_tool ''a'']" None] limited limited_traversal
      files_done [of "example_server [described_tool ''a''] None"]
    by (simp add: example_server_def)
  from a b c d e show ?thesis by blast
qed

end
